theory Spec2Isabelle
  imports Complex_Main
begin

section \<open>Python errors and tensors\<close>

text \<open>
  Every exception the modelled code can raise is a value of \<open>error\<close>; a function that
  can raise returns \<open>error + 'a\<close> with \<open>Inl\<close> for the exception.
\<close>

datatype error =
  TypeError | ValueError | IndexError | AttributeError | RuntimeError | ZeroDivisionError
  | OverflowError

datatype dtype = Float16 | Float32 | Float64

text \<open>
  A tensor is its numeric type, its shape and its elements in row-major order. The
  elements are real numbers: the arithmetic on them is that of the layers, which are
  parameters here. A tensor is read as contiguous; where the code takes a view of a
  permuted or sliced tensor, the strides are carried along.
\<close>

record tensor =
  dtype :: dtype
  shape :: "nat list"
  elems :: "real list"

definition numel :: "tensor \<Rightarrow> nat" where
  "numel t = prod_list (shape t)"

text \<open>\<^verbatim>\<open>torch.zeros(shape)\<close>: a negative dimension raises; the default type is float32.\<close>

definition torch_zeros :: "int list \<Rightarrow> error + tensor" where
  "torch_zeros ds =
     (if list_ex (\<lambda>d. d < 0) ds then Inl RuntimeError
      else Inr \<lparr>dtype = Float32, shape = map nat ds,
                elems = replicate (prod_list (map nat ds)) 0\<rparr>)"

text \<open>\<^verbatim>\<open>t.type_as(other)\<close>: the same values in the numeric type of \<open>other\<close>.\<close>

definition type_as :: "tensor \<Rightarrow> tensor \<Rightarrow> tensor" where
  "type_as t other = t\<lparr>dtype := dtype other\<rparr>"

text \<open>\<^verbatim>\<open>t.size(d)\<close> for \<open>d \<ge> 0\<close>.\<close>

definition tensor_size :: "tensor \<Rightarrow> nat \<Rightarrow> error + nat" where
  "tensor_size t d = (if d < length (shape t) then Inr (shape t ! d) else Inl IndexError)"

text \<open>\<^verbatim>\<open>t[i]\<close> for an index \<open>i \<ge> 0\<close> into the first dimension.\<close>

definition index0 :: "tensor \<Rightarrow> nat \<Rightarrow> error + tensor" where
  "index0 t i =
     (case shape t of
        [] \<Rightarrow> Inl IndexError
      | n # rest \<Rightarrow>
          if i < n
          then Inr \<lparr>dtype = dtype t, shape = rest,
                    elems = take (prod_list rest) (drop (i * prod_list rest) (elems t))\<rparr>
          else Inl IndexError)"

text \<open>\<^verbatim>\<open>x[i]\<close> where \<open>x\<close> may be \<^verbatim>\<open>None\<close>: \<^verbatim>\<open>None\<close> is not subscriptable.\<close>

definition getitem :: "tensor option \<Rightarrow> nat \<Rightarrow> error + tensor" where
  "getitem x i = (case x of None \<Rightarrow> Inl TypeError | Some t \<Rightarrow> index0 t i)"

text \<open>Type promotion of two floating types: the wider one.\<close>

fun promote :: "dtype \<Rightarrow> dtype \<Rightarrow> dtype" where
  "promote Float64 _ = Float64"
| "promote _ Float64 = Float64"
| "promote Float32 _ = Float32"
| "promote _ Float32 = Float32"
| "promote Float16 Float16 = Float16"

text \<open>
  \<^verbatim>\<open>torch.stack(ts)\<close>: an empty list raises, tensors of different shapes raise; the
  result has a new first dimension of the length of the list.
\<close>

definition torch_stack :: "tensor list \<Rightarrow> error + tensor" where
  "torch_stack ts =
     (case ts of
        [] \<Rightarrow> Inl RuntimeError
      | t # rest \<Rightarrow>
          if list_all (\<lambda>u. shape u = shape t) rest
          then Inr \<lparr>dtype = foldl promote (dtype t) (map dtype rest),
                    shape = length ts # shape t,
                    elems = concat (map elems ts)\<rparr>
          else Inl RuntimeError)"

text \<open>
  \<^verbatim>\<open>t.view(*ds)\<close>: at most one dimension is \<open>-1\<close> and is inferred from the number
  of elements; a dimension below \<open>-1\<close>, a second \<open>-1\<close>, a shape whose size is not the
  number of elements and an inferred dimension that is not determined all raise. This
  is the view of a contiguous tensor.
\<close>

definition torch_view :: "tensor \<Rightarrow> int list \<Rightarrow> error + tensor" where
  "torch_view t ds =
     (let known = filter (\<lambda>d. d \<noteq> - 1) ds; p = prod_list (map nat known)
      in if list_ex (\<lambda>d. d < - 1) ds \<or> length known + 1 < length ds then Inl RuntimeError
         else if length known = length ds
         then (if p = numel t then Inr (t\<lparr>shape := map nat ds\<rparr>) else Inl RuntimeError)
         else (if p = 0 \<or> numel t mod p \<noteq> 0 then Inl RuntimeError
               else Inr (t\<lparr>shape := map (\<lambda>d. if d = - 1 then numel t div p else nat d) ds\<rparr>)))"

text \<open>
  A tensor that is not contiguous: \<open>strides\<close> gives, for every dimension, the distance
  in the storage of two neighbours along it. The elements stay in the row-major order of
  the shape. A contiguous tensor has the strides of its shape, with an empty dimension
  counted as one.
\<close>

record strided = tensor +
  strides :: "nat list"

fun contiguous_strides :: "nat list \<Rightarrow> nat list" where
  "contiguous_strides [] = []"
| "contiguous_strides (d # ds) = prod_list (map (max 1) ds) # contiguous_strides ds"

text \<open>
  Whether a tensor of the given shape and strides can be viewed in a new shape of the
  same size without copying, as the library decides it. The dimensions are walked from
  the innermost one. Those that lie in the storage like one contiguous block form a
  chunk; the new dimensions, innermost first, must fill every chunk exactly.
  \<open>consume_view\<close> takes new dimensions until the chunk is filled, and dimensions of
  size one after it.
\<close>

fun consume_view :: "nat list \<Rightarrow> nat \<Rightarrow> nat \<Rightarrow> nat list \<times> nat" where
  "consume_view [] view_numel tensor_numel = ([], view_numel)"
| "consume_view (v # vs) view_numel tensor_numel =
     (if view_numel < tensor_numel \<or> v = 1
      then consume_view vs (view_numel * v) tensor_numel
      else (v # vs, view_numel))"

fun view_chunks :: "(nat \<times> nat) list \<Rightarrow> nat list \<Rightarrow> nat \<Rightarrow> nat \<Rightarrow> nat \<Rightarrow> bool" where
  "view_chunks [] vs chunk_base_stride tensor_numel view_numel = (vs = [])"
| "view_chunks ((d, s) # outer) vs chunk_base_stride tensor_numel view_numel =
     (let tn = tensor_numel * d
      in case outer of
           [] \<Rightarrow>
             (case consume_view vs view_numel tn of (vs', vn) \<Rightarrow> vn = tn \<and> vs' = [])
         | (d', s') # _ \<Rightarrow>
             if d' \<noteq> 1 \<and> s' \<noteq> tn * chunk_base_stride
             then (case consume_view vs view_numel tn of
                     (vs', vn) \<Rightarrow> vn = tn \<and> view_chunks outer vs' s' 1 1)
             else view_chunks outer vs chunk_base_stride tn view_numel)"

definition view_compatible :: "nat list \<Rightarrow> nat list \<Rightarrow> nat list \<Rightarrow> bool" where
  "view_compatible old_shape old_strides new_shape \<longleftrightarrow>
     old_shape = [] \<or> prod_list old_shape = 0 \<or>
     view_chunks (rev (zip old_shape old_strides)) (rev new_shape) (last old_strides) 1 1"

text \<open>
  \<^verbatim>\<open>t.view(*ds)\<close> of a tensor with strides: it raises as the view of a contiguous tensor
  does, and also where the strides do not allow the new shape.
\<close>

definition torch_view_strided :: "strided \<Rightarrow> int list \<Rightarrow> error + tensor" where
  "torch_view_strided t ds =
     (case torch_view (tensor.truncate t) ds of
        Inl e \<Rightarrow> Inl e
      | Inr v \<Rightarrow>
          if view_compatible (shape t) (strides t) (shape v) then Inr v
          else Inl RuntimeError)"

text \<open>
  \<^verbatim>\<open>t.permute(1, 0, 2, 3)\<close> of a contiguous tensor: the first two of four dimensions
  are exchanged, and their strides with them; the block of the last two dimensions at
  \<open>(i, j)\<close> moves to \<open>(j, i)\<close>.
\<close>

definition permute_1023 :: "tensor \<Rightarrow> error + strided" where
  "permute_1023 t =
     (case shape t of
        [a, b, c, d] \<Rightarrow>
          Inr \<lparr>dtype = dtype t, shape = [b, a, c, d],
               elems = concat (map (\<lambda>j. concat (map (\<lambda>i.
                          take (c * d) (drop ((i * b + j) * (c * d)) (elems t))) [0..<a]))
                        [0..<b]),
               strides = (case contiguous_strides [a, b, c, d] of
                            [sa, sb, sc, sd] \<Rightarrow> [sb, sa, sc, sd] | _ \<Rightarrow> [])\<rparr>
      | _ \<Rightarrow> Inl RuntimeError)"

text \<open>
  \<^verbatim>\<open>t[..., :k]\<close>: the first \<open>k\<close> entries of the last dimension, with the slice
  semantics of Python for a \<open>k\<close> that is negative or beyond the dimension. The strides
  stay as they are.
\<close>

definition slice_last :: "strided \<Rightarrow> int \<Rightarrow> error + strided" where
  "slice_last t k =
     (case shape t of
        [] \<Rightarrow> Inl IndexError
      | _ # _ \<Rightarrow>
          let n = last (shape t);
              stop = (if k < 0 then nat (int n + k) else min (nat k) n)
          in Inr \<lparr>dtype = dtype t, shape = butlast (shape t) @ [stop],
                  elems = concat (map (\<lambda>r. take stop (drop (r * n) (elems t)))
                            [0..<prod_list (butlast (shape t))]),
                  strides = strides t\<rparr>)"

section \<open>Configuration and construction\<close>

text \<open>
  The keyword options of the constructors: \<open>None\<close> is a key that is absent. Options
  are typed as the configuration surface gives them, so \<^verbatim>\<open>int(...)\<close> and \<^verbatim>\<open>bool(...)\<close>
  of a present option are the identity and \<^verbatim>\<open>int(None)\<close> raises \<^verbatim>\<open>TypeError\<close>.
\<close>

record model_kwargs =
  kw_max_diffusion_step :: "int option"
  kw_cl_decay_steps :: "int option"
  kw_filter_type :: "string option"
  kw_num_nodes :: "int option"
  kw_num_rnn_layers :: "int option"
  kw_rnn_units :: "int option"
  kw_use_gc_for_ru :: "bool option"
  kw_input_dim :: "int option"
  kw_seq_len :: "int option"
  kw_output_dim :: "int option"
  kw_horizon :: "int option"
  kw_use_curriculum_learning :: "bool option"

definition kw_get :: "'a option \<Rightarrow> 'a \<Rightarrow> 'a" where
  "kw_get v d = (case v of None \<Rightarrow> d | Some x \<Rightarrow> x)"

definition py_int :: "int option \<Rightarrow> error + int" where
  "py_int v = (case v of None \<Rightarrow> Inl TypeError | Some x \<Rightarrow> Inr x)"

type_synonym adjacency = "real list list"

record seq2seq_attrs =
  adj_mx :: adjacency
  max_diffusion_step :: int
  cl_decay_steps :: int
  filter_type :: string
  num_nodes :: int
  num_rnn_layers :: int
  rnn_units :: int
  use_gc_for_ru :: bool
  hidden_state_size :: int

definition Seq2SeqAttrs_init :: "adjacency \<Rightarrow> model_kwargs \<Rightarrow> error + seq2seq_attrs" where
  "Seq2SeqAttrs_init adj kw =
     (case py_int (kw_rnn_units kw) of
        Inl e \<Rightarrow> Inl e
      | Inr units \<Rightarrow>
          Inr \<lparr>adj_mx = adj,
               max_diffusion_step = kw_get (kw_max_diffusion_step kw) 2,
               cl_decay_steps = kw_get (kw_cl_decay_steps kw) 1000,
               filter_type = kw_get (kw_filter_type kw) ''laplacian'',
               num_nodes = kw_get (kw_num_nodes kw) 1,
               num_rnn_layers = kw_get (kw_num_rnn_layers kw) 1,
               rnn_units = units,
               use_gc_for_ru = kw_get (kw_use_gc_for_ru kw) True,
               hidden_state_size = kw_get (kw_num_nodes kw) 1 * units\<rparr>)"

text \<open>
  The recurrent graph-convolution cell \<^verbatim>\<open>DCGRU\<close> and the linear layer are collaborators:
  a layer is the function its \<^verbatim>\<open>forward\<close> computes, which may raise, together with the
  number of parameter tensors it registers. Their constructors are parameters of the
  constructors below.
\<close>

record dcgru =
  dcgru_forward :: "tensor \<Rightarrow> tensor \<Rightarrow> error + tensor"
  dcgru_nparams :: nat

record linear =
  linear_forward :: "tensor \<Rightarrow> error + tensor"

record dcgru_args =
  arg_units :: int
  arg_adj :: adjacency
  arg_max_diffusion_step :: int
  arg_num_nodes :: int
  arg_input_dim :: int
  arg_filter_type :: string
  arg_use_gc_for_ru :: bool

text \<open>
  The list comprehension that builds the layers: layer \<open>i\<close> of \<^verbatim>\<open>range(num_rnn_layers)\<close>
  takes \<open>first_dim\<close> inputs when \<open>i = 0\<close> and \<open>rnn_units\<close> otherwise; the first
  constructor that raises ends the construction.
\<close>

fun build_layers ::
  "(dcgru_args \<Rightarrow> error + dcgru) \<Rightarrow> seq2seq_attrs \<Rightarrow> int \<Rightarrow> nat list \<Rightarrow> error + dcgru list"
where
  "build_layers mk a first_dim [] = Inr []"
| "build_layers mk a first_dim (i # is) =
     (case mk \<lparr>arg_units = rnn_units a, arg_adj = adj_mx a,
               arg_max_diffusion_step = max_diffusion_step a,
               arg_num_nodes = num_nodes a,
               arg_input_dim = (if i = 0 then first_dim else rnn_units a),
               arg_filter_type = filter_type a,
               arg_use_gc_for_ru = use_gc_for_ru a\<rparr> of
        Inl e \<Rightarrow> Inl e
      | Inr l \<Rightarrow>
          (case build_layers mk a first_dim is of
             Inl e \<Rightarrow> Inl e
           | Inr ls \<Rightarrow> Inr (l # ls)))"

record encoder_t = seq2seq_attrs +
  input_dim :: int
  seq_len :: int
  enc_dcgru_layers :: "dcgru list"

record decoder_t = seq2seq_attrs +
  output_dim :: int
  horizon :: int
  projection_layer :: linear
  dec_dcgru_layers :: "dcgru list"

definition Encoder_init ::
  "(dcgru_args \<Rightarrow> error + dcgru) \<Rightarrow> adjacency \<Rightarrow> model_kwargs \<Rightarrow> error + encoder_t"
where
  "Encoder_init mk adj kw =
     (case Seq2SeqAttrs_init adj kw of
        Inl e \<Rightarrow> Inl e
      | Inr a \<Rightarrow>
          (case py_int (kw_seq_len kw) of
             Inl e \<Rightarrow> Inl e
           | Inr sl \<Rightarrow>
               (case build_layers mk a (kw_get (kw_input_dim kw) 1)
                       [0..<nat (num_rnn_layers a)] of
                  Inl e \<Rightarrow> Inl e
                | Inr ls \<Rightarrow>
                    Inr (seq2seq_attrs.extend a
                          (encoder_t.fields (kw_get (kw_input_dim kw) 1) sl ls)))))"

definition Decoder_init ::
  "(dcgru_args \<Rightarrow> error + dcgru) \<Rightarrow> (int \<Rightarrow> int \<Rightarrow> error + linear) \<Rightarrow>
   adjacency \<Rightarrow> model_kwargs \<Rightarrow> error + decoder_t"
where
  "Decoder_init mk mk_linear adj kw =
     (case Seq2SeqAttrs_init adj kw of
        Inl e \<Rightarrow> Inl e
      | Inr a \<Rightarrow>
          (case mk_linear (rnn_units a) (kw_get (kw_output_dim kw) 1) of
             Inl e \<Rightarrow> Inl e
           | Inr p \<Rightarrow>
               (case build_layers mk a (kw_get (kw_output_dim kw) 1)
                       [0..<nat (num_rnn_layers a)] of
                  Inl e \<Rightarrow> Inl e
                | Inr ls \<Rightarrow>
                    Inr (seq2seq_attrs.extend a
                          (decoder_t.fields (kw_get (kw_output_dim kw) 1)
                             (kw_get (kw_horizon kw) 1) p ls)))))"

record dcrnn = seq2seq_attrs +
  scaler :: "tensor \<Rightarrow> error + tensor"
  encoder_model :: encoder_t
  decoder_model :: decoder_t
  use_curriculum_learning :: bool
  training :: bool
  param_grads :: "real list option list"

text \<open>
  \<open>scaler\<close> is the \<^verbatim>\<open>inverse_transform\<close> of the scaler object. \<open>training\<close> is the
  mode flag of the module, set by its base class at construction. \<open>param_grads\<close> is
  the gradient stored with each tensor of \<^verbatim>\<open>self.parameters()\<close>, \<open>None\<close> where
  no gradient has been computed: the layers of the encoder first, then the weight and the
  bias of the projection, then the layers of the decoder.
\<close>

definition DCRNN_init ::
  "(dcgru_args \<Rightarrow> error + dcgru) \<Rightarrow> (int \<Rightarrow> int \<Rightarrow> error + linear) \<Rightarrow>
   adjacency \<Rightarrow> (tensor \<Rightarrow> error + tensor) \<Rightarrow> model_kwargs \<Rightarrow> error + dcrnn"
where
  "DCRNN_init mk mk_linear adj sc kw =
     (case Seq2SeqAttrs_init adj kw of
        Inl e \<Rightarrow> Inl e
      | Inr a \<Rightarrow>
          (case Encoder_init mk adj kw of
             Inl e \<Rightarrow> Inl e
           | Inr enc \<Rightarrow>
               (case Decoder_init mk mk_linear adj kw of
                  Inl e \<Rightarrow> Inl e
                | Inr dec \<Rightarrow>
                    Inr (seq2seq_attrs.extend
                          (a\<lparr>cl_decay_steps := kw_get (kw_cl_decay_steps kw) 1000\<rparr>)
                          (dcrnn.fields sc enc dec
                             (kw_get (kw_use_curriculum_learning kw) False) True
                             (replicate
                                (sum_list (map dcgru_nparams (enc_dcgru_layers enc)) + 2 +
                                 sum_list (map dcgru_nparams (dec_dcgru_layers dec)))
                                None))))))"

section \<open>Encoder and Decoder\<close>

text \<open>
  The loop over \<^verbatim>\<open>enumerate(self.dcgru_layers)\<close>, shared by both \<^verbatim>\<open>forward\<close> methods:
  \<open>layer_num\<close> counts the layers, \<open>output\<close> is the input of the current layer and
  \<open>hidden_states\<close> collects the new slices in layer order.
\<close>

fun run_layers ::
  "dcgru list \<Rightarrow> nat \<Rightarrow> tensor option \<Rightarrow> tensor \<Rightarrow> tensor list \<Rightarrow>
   error + (tensor \<times> tensor list)"
where
  "run_layers [] layer_num hidden_state output hidden_states = Inr (output, hidden_states)"
| "run_layers (l # ls) layer_num hidden_state output hidden_states =
     (case getitem hidden_state layer_num of
        Inl e \<Rightarrow> Inl e
      | Inr h \<Rightarrow>
          (case dcgru_forward l output h of
             Inl e \<Rightarrow> Inl e
           | Inr next_hidden_state \<Rightarrow>
               run_layers ls (Suc layer_num) hidden_state next_hidden_state
                 (hidden_states @ [next_hidden_state])))"

text \<open>The initial hidden state of \<^verbatim>\<open>Encoder.forward\<close> when none is passed.\<close>

definition initial_hidden_state :: "encoder_t \<Rightarrow> tensor \<Rightarrow> nat \<Rightarrow> error + tensor" where
  "initial_hidden_state enc inputs batch_size =
     (case torch_zeros [num_rnn_layers enc, int batch_size, hidden_state_size enc] of
        Inl e \<Rightarrow> Inl e
      | Inr z \<Rightarrow> Inr (type_as z inputs))"

definition Encoder_forward ::
  "encoder_t \<Rightarrow> tensor \<Rightarrow> tensor option \<Rightarrow> error + (tensor \<times> tensor)"
where
  "Encoder_forward enc inputs hidden_state =
     (case shape inputs of
        [batch_size, _] \<Rightarrow>
          (case (case hidden_state of
                   None \<Rightarrow> initial_hidden_state enc inputs batch_size
                 | Some h \<Rightarrow> Inr h) of
             Inl e \<Rightarrow> Inl e
           | Inr h \<Rightarrow>
               (case run_layers (enc_dcgru_layers enc) 0 (Some h) inputs [] of
                  Inl e \<Rightarrow> Inl e
                | Inr (output, hidden_states) \<Rightarrow>
                    (case torch_stack hidden_states of
                       Inl e \<Rightarrow> Inl e
                     | Inr stacked \<Rightarrow> Inr (output, stacked))))
      | _ \<Rightarrow> Inl ValueError)"

definition Decoder_forward ::
  "decoder_t \<Rightarrow> tensor \<Rightarrow> tensor option \<Rightarrow> error + (tensor \<times> tensor)"
where
  "Decoder_forward dec inputs hidden_state =
     (case run_layers (dec_dcgru_layers dec) 0 hidden_state inputs [] of
        Inl e \<Rightarrow> Inl e
      | Inr (output, hidden_states) \<Rightarrow>
          (case torch_view output [- 1, rnn_units dec] of
             Inl e \<Rightarrow> Inl e
           | Inr flat \<Rightarrow>
               (case linear_forward (projection_layer dec) flat of
                  Inl e \<Rightarrow> Inl e
                | Inr projected \<Rightarrow>
                    (case torch_view projected [- 1, num_nodes dec * output_dim dec] of
                       Inl e \<Rightarrow> Inl e
                     | Inr out \<Rightarrow>
                         (case torch_stack hidden_states of
                            Inl e \<Rightarrow> Inl e
                          | Inr stacked \<Rightarrow> Inr (out, stacked))))))"

section \<open>Floating point\<close>

text \<open>
  The threshold is computed in binary64. A finite value of that format is a real number
  \<open>n * 2^j\<close> with \<open>\<bar>n\<bar> < 2^53\<close> and \<open>j \<ge> -1074\<close>; the result of an operation is the
  exact result rounded to the nearest such value, ties to the even one.
  \<open>float_exponent x\<close> is the exponent of the binade of \<open>x\<close>, held at \<open>-1022\<close> in the
  subnormal range, and \<open>ulp x\<close> is the distance of neighbouring values there.
\<close>

definition round_half_even :: "real \<Rightarrow> int" where
  "round_half_even x =
     (let f = \<lfloor>x\<rfloor>; r = x - of_int f
      in if r < 1 / 2 then f else if 1 / 2 < r then f + 1 else if even f then f else f + 1)"

definition float_exponent :: "real \<Rightarrow> int" where
  "float_exponent x = max (- 1022) \<lfloor>log 2 \<bar>x\<bar>\<rfloor>"

definition ulp :: "real \<Rightarrow> real" where
  "ulp x = 2 powi (float_exponent x - 52)"

definition round64_real :: "real \<Rightarrow> real" where
  "round64_real x = (if x = 0 then 0 else of_int (round_half_even (x / ulp x)) * ulp x)"

text \<open>
  A value of a floating-point expression is finite or an infinity. The largest finite
  value is \<open>2^1024 - 2^971\<close>; an exact result of at least \<open>2^1024 - 2^970\<close>, half way
  to \<open>2^1024\<close>, rounds to infinity.
\<close>

datatype fnum = Finite real | PlusInf | MinusInf

definition overflow_threshold :: real where
  "overflow_threshold = 2 ^ 1024 - 2 ^ 970"

definition round64 :: "real \<Rightarrow> fnum" where
  "round64 x =
     (if overflow_threshold \<le> x then PlusInf
      else if x \<le> - overflow_threshold then MinusInf
      else Finite (round64_real x))"

text \<open>
  A float that Python makes of an exact number, as the true division of two integers and
  the conversion of an integer do: it raises \<^verbatim>\<open>OverflowError\<close> where the number is too
  large for a float.
\<close>

definition py_float :: "real \<Rightarrow> error + real" where
  "py_float x = (case round64 x of Finite y \<Rightarrow> Inr y | _ \<Rightarrow> Inl OverflowError)"

text \<open>
  \<^verbatim>\<open>np.exp\<close>, taken as the correctly rounded exponential: it does not raise and gives
  infinity on overflow. The sum and the quotient of a float and a float value of numpy
  do not raise either; a quotient by zero is an infinity of the sign of the numerator,
  which is not zero where the function below divides.
\<close>

definition np_exp :: "real \<Rightarrow> fnum" where
  "np_exp x = round64 (exp x)"

fun float_add :: "real \<Rightarrow> fnum \<Rightarrow> fnum" where
  "float_add a (Finite b) = round64 (a + b)"
| "float_add a PlusInf = PlusInf"
| "float_add a MinusInf = MinusInf"

fun float_div :: "real \<Rightarrow> fnum \<Rightarrow> fnum" where
  "float_div a (Finite b) =
     (if b = 0 then (if 0 < a then PlusInf else MinusInf) else round64 (a / b))"
| "float_div a PlusInf = Finite 0"
| "float_div a MinusInf = Finite 0"

section \<open>The sampling threshold\<close>

text \<open>
  \<open>batches_seen\<close> is the value of a number, or \<^verbatim>\<open>None\<close>. Dividing \<^verbatim>\<open>None\<close> raises
  \<^verbatim>\<open>TypeError\<close>, dividing by \<open>cl_decay_steps = 0\<close> raises \<^verbatim>\<open>ZeroDivisionError\<close>, and
  the quotient is a float. The exponential, the sum and the outer quotient are float
  operations of numpy on that quotient and on \<open>cl_decay_steps\<close> as a float.
\<close>

definition compute_sampling_threshold :: "dcrnn \<Rightarrow> real option \<Rightarrow> error + fnum" where
  "compute_sampling_threshold m batches_seen =
     (case batches_seen of
        None \<Rightarrow> Inl TypeError
      | Some b \<Rightarrow>
          if cl_decay_steps m = 0 then Inl ZeroDivisionError
          else
            (case py_float (b / real_of_int (cl_decay_steps m)) of
               Inl e \<Rightarrow> Inl e
             | Inr q \<Rightarrow>
                 (case py_float (real_of_int (cl_decay_steps m)) of
                    Inl e \<Rightarrow> Inl e
                  | Inr c \<Rightarrow> Inr (float_div c (float_add c (np_exp q))))))"

text \<open>The comparison \<^verbatim>\<open>c < threshold\<close>.\<close>

fun less_fnum :: "real \<Rightarrow> fnum \<Rightarrow> bool" where
  "less_fnum c (Finite x) = (c < x)"
| "less_fnum c PlusInf = True"
| "less_fnum c MinusInf = False"

section \<open>The orchestrator\<close>

text \<open>
  \<^verbatim>\<open>DCRNN.encoder\<close>: the loop over \<^verbatim>\<open>range(seq_len)\<close>; the hidden state is \<^verbatim>\<open>None\<close>
  before the first step.
\<close>

fun encoder_loop ::
  "dcrnn \<Rightarrow> tensor \<Rightarrow> nat list \<Rightarrow> tensor option \<Rightarrow> error + tensor option"
where
  "encoder_loop m inputs [] encoder_hidden_state = Inr encoder_hidden_state"
| "encoder_loop m inputs (t # ts) encoder_hidden_state =
     (case index0 inputs t of
        Inl e \<Rightarrow> Inl e
      | Inr x \<Rightarrow>
          (case Encoder_forward (encoder_model m) x encoder_hidden_state of
             Inl e \<Rightarrow> Inl e
           | Inr (_, h) \<Rightarrow> encoder_loop m inputs ts (Some h)))"

definition encoder :: "dcrnn \<Rightarrow> tensor \<Rightarrow> error + tensor option" where
  "encoder m inputs = encoder_loop m inputs [0..<nat (seq_len (encoder_model m))] None"

text \<open>
  The variables of the loop of \<^verbatim>\<open>DCRNN.decoder\<close>. \<^verbatim>\<open>np.random.uniform(0, 1)\<close> reads a
  global generator: \<open>uniform k\<close> is the value of its \<open>k\<close>-th call during this call of
  the decoder, and \<open>draws\<close> counts the calls made so far.
\<close>

record decoder_state =
  decoder_input :: tensor
  decoder_hidden_state :: tensor
  outputs :: "tensor list"
  draws :: nat

definition decoder_body ::
  "dcrnn \<Rightarrow> (nat \<Rightarrow> real) \<Rightarrow> tensor option \<Rightarrow> real option \<Rightarrow> nat \<Rightarrow> decoder_state \<Rightarrow>
   error + decoder_state"
where
  "decoder_body m uniform labels batches_seen t st =
     (case Decoder_forward (decoder_model m) (decoder_input st)
             (Some (decoder_hidden_state st)) of
        Inl e \<Rightarrow> Inl e
      | Inr (decoder_output, h) \<Rightarrow>
          let st1 = st\<lparr>decoder_input := decoder_output, decoder_hidden_state := h,
                       outputs := outputs st @ [decoder_output]\<rparr>
          in if training m \<and> use_curriculum_learning m
             then
               let c = uniform (draws st1); st2 = st1\<lparr>draws := Suc (draws st1)\<rparr>
               in (case compute_sampling_threshold m batches_seen of
                     Inl e \<Rightarrow> Inl e
                   | Inr threshold \<Rightarrow>
                       if less_fnum c threshold
                       then (case getitem labels t of
                               Inl e \<Rightarrow> Inl e
                             | Inr l \<Rightarrow> Inr (st2\<lparr>decoder_input := l\<rparr>))
                       else Inr st2)
             else Inr st1)"

fun decoder_loop ::
  "dcrnn \<Rightarrow> (nat \<Rightarrow> real) \<Rightarrow> tensor option \<Rightarrow> real option \<Rightarrow> nat list \<Rightarrow> decoder_state \<Rightarrow>
   error + decoder_state"
where
  "decoder_loop m uniform labels batches_seen [] st = Inr st"
| "decoder_loop m uniform labels batches_seen (t # ts) st =
     (case decoder_body m uniform labels batches_seen t st of
        Inl e \<Rightarrow> Inl e
      | Inr st' \<Rightarrow> decoder_loop m uniform labels batches_seen ts st')"

text \<open>The state before the loop: the go symbol as input, no output yet.\<close>

definition decoder_start :: "dcrnn \<Rightarrow> tensor option \<Rightarrow> error + decoder_state" where
  "decoder_start m encoder_hidden_state =
     (case encoder_hidden_state of
        None \<Rightarrow> Inl AttributeError
      | Some h \<Rightarrow>
          (case tensor_size h 1 of
             Inl e \<Rightarrow> Inl e
           | Inr batch_size \<Rightarrow>
               (case torch_zeros
                       [int batch_size, num_nodes m * output_dim (decoder_model m)] of
                  Inl e \<Rightarrow> Inl e
                | Inr go_symbol \<Rightarrow>
                    Inr \<lparr>decoder_input = type_as go_symbol h,
                         decoder_hidden_state = h, outputs = [], draws = 0\<rparr>)))"

definition decoder ::
  "dcrnn \<Rightarrow> (nat \<Rightarrow> real) \<Rightarrow> tensor option \<Rightarrow> tensor option \<Rightarrow> real option \<Rightarrow>
   error + tensor"
where
  "decoder m uniform encoder_hidden_state labels batches_seen =
     (case decoder_start m encoder_hidden_state of
        Inl e \<Rightarrow> Inl e
      | Inr st0 \<Rightarrow>
          (case decoder_loop m uniform labels batches_seen
                  [0..<nat (horizon (decoder_model m))] st0 of
             Inl e \<Rightarrow> Inl e
           | Inr st \<Rightarrow> torch_stack (outputs st)))"

definition forward ::
  "dcrnn \<Rightarrow> (nat \<Rightarrow> real) \<Rightarrow> tensor \<Rightarrow> tensor option \<Rightarrow> real option \<Rightarrow> error + tensor"
where
  "forward m uniform inputs labels batches_seen =
     (case encoder m inputs of
        Inl e \<Rightarrow> Inl e
      | Inr encoder_hidden_state \<Rightarrow>
          decoder m uniform encoder_hidden_state labels batches_seen)"

section \<open>The training step\<close>

text \<open>
  Modelled from the spec: \<^verbatim>\<open>masked_mae_loss\<close> of \<^verbatim>\<open>torchts.nn.loss\<close>, which is not
  among the sources. Positions where the true value is zero are masked: they contribute
  zero loss mass, the sum is normalised by the count of unmasked positions, and the
  division is guarded so that a batch with every position masked gives zero. The
  arguments are the elements of the two tensors, position by position.
\<close>

definition masked_abs_errors :: "real list \<Rightarrow> real list \<Rightarrow> real list" where
  "masked_abs_errors true pred =
     map (\<lambda>(t, p). if t \<noteq> 0 then \<bar>t - p\<bar> else 0) (zip true pred)"

definition unmasked_count :: "real list \<Rightarrow> real list \<Rightarrow> nat" where
  "unmasked_count true pred = length (filter (\<lambda>(t, p). t \<noteq> 0) (zip true pred))"

definition masked_mae_loss :: "real list \<Rightarrow> real list \<Rightarrow> real" where
  "masked_mae_loss true pred =
     (if unmasked_count true pred = 0 then 0
      else sum_list (masked_abs_errors true pred) / real (unmasked_count true pred))"

text \<open>
  The other wording of the spec: the mean absolute error over the positions where the
  true value is not zero.
\<close>

definition unmasked_abs_errors :: "real list \<Rightarrow> real list \<Rightarrow> real list" where
  "unmasked_abs_errors true pred =
     map (\<lambda>(t, p). \<bar>t - p\<bar>) (filter (\<lambda>(t, p). t \<noteq> 0) (zip true pred))"

definition mean_list :: "real list \<Rightarrow> real" where
  "mean_list xs = sum_list xs / real (length xs)"

text \<open>
  \<^verbatim>\<open>torch.nn.utils.clip_grad_norm_(parameters, max_norm)\<close> with the 2-norm: the norm of
  the norms of the gradients that exist; every gradient is scaled in place by
  \<open>max_norm / (total_norm + 1e-6)\<close>, clamped to at most one.
\<close>

definition l2_norm :: "real list \<Rightarrow> real" where
  "l2_norm v = sqrt (sum_list (map (\<lambda>x. x\<^sup>2) v))"

definition existing_grads :: "real list option list \<Rightarrow> real list list" where
  "existing_grads gs = concat (map (\<lambda>g. case g of None \<Rightarrow> [] | Some v \<Rightarrow> [v]) gs)"

definition total_norm :: "real list option list \<Rightarrow> real" where
  "total_norm gs = l2_norm (map l2_norm (existing_grads gs))"

definition clip_grad_norm :: "real list option list \<Rightarrow> real \<Rightarrow> real list option list" where
  "clip_grad_norm gs max_norm =
     (let clip_coef = max_norm / (total_norm gs + 1 / 1000000);
          clip_coef_clamped = min clip_coef 1
      in map (map_option (map (\<lambda>x. x * clip_coef_clamped))) gs)"

text \<open>
  \<^verbatim>\<open>DCRNN.training_step\<close>: the batch is the pair of the input and the target tensor,
  both contiguous as a data loader collates them. The gradients are the only state of
  the instance that the step writes; the result is the loss with the instance after the
  step. The step runs no backward pass: the gradients it clips are those stored with the
  parameters when it is called.
\<close>

definition training_step ::
  "dcrnn \<Rightarrow> (nat \<Rightarrow> real) \<Rightarrow> tensor \<times> tensor \<Rightarrow> int \<Rightarrow> error + (real \<times> dcrnn)"
where
  "training_step m uniform batch batch_idx =
     (case batch of (x0, y0) \<Rightarrow>
     (case permute_1023 x0 of Inl e \<Rightarrow> Inl e | Inr x1 \<Rightarrow>
     (case permute_1023 y0 of Inl e \<Rightarrow> Inl e | Inr y1 \<Rightarrow>
     (case tensor_size (tensor.truncate x1) 1 of Inl e \<Rightarrow> Inl e | Inr batch_size \<Rightarrow>
     (case torch_view_strided x1 [seq_len (encoder_model m), int batch_size,
                          num_nodes m * input_dim (encoder_model m)] of
        Inl e \<Rightarrow> Inl e | Inr x \<Rightarrow>
     (case slice_last y1 (output_dim (decoder_model m)) of Inl e \<Rightarrow> Inl e | Inr y2 \<Rightarrow>
     (case torch_view_strided y2 [horizon (decoder_model m), int batch_size,
                          num_nodes m * output_dim (decoder_model m)] of
        Inl e \<Rightarrow> Inl e | Inr y \<Rightarrow>
     (case forward m uniform x (Some y) (Some (real_of_int batch_idx)) of
        Inl e \<Rightarrow> Inl e | Inr pred \<Rightarrow>
     (case scaler m y of Inl e \<Rightarrow> Inl e | Inr y' \<Rightarrow>
     (case scaler m pred of Inl e \<Rightarrow> Inl e | Inr pred' \<Rightarrow>
        Inr (masked_mae_loss (elems y') (elems pred'),
             m\<lparr>param_grads := clip_grad_norm (param_grads m) 5\<rparr>)))))))))))"

section \<open>Reference formulations\<close>

text \<open>
  The encoder in the words of the spec: the Encoder is iterated over the time steps in
  order, every per-step output is discarded and the hidden state after the last step is
  kept.
\<close>

fun encoder_steps :: "encoder_t \<Rightarrow> tensor list \<Rightarrow> tensor option \<Rightarrow> error + tensor option" where
  "encoder_steps enc [] h = Inr h"
| "encoder_steps enc (x # xs) h =
     (case Encoder_forward enc x h of
        Inl e \<Rightarrow> Inl e
      | Inr (_, h') \<Rightarrow> encoder_steps enc xs (Some h'))"

text \<open>
  The explicit hidden state of the spec: all zero, of shape
  \<open>(num_rnn_layers, batch, hidden_state_size)\<close>, in a given numeric type.
\<close>

definition zero_hidden_state :: "encoder_t \<Rightarrow> nat \<Rightarrow> dtype \<Rightarrow> tensor" where
  "zero_hidden_state enc batch ty =
     \<lparr>dtype = ty,
      shape = [nat (num_rnn_layers enc), batch, nat (hidden_state_size enc)],
      elems = replicate (nat (num_rnn_layers enc) * batch * nat (hidden_state_size enc)) 0\<rparr>"

text \<open>
  The threshold as the spec writes it, for a decay rate \<open>c\<close> and \<open>b\<close> batches seen,
  and the float the code reaches for it from the float \<open>q\<close> of \<open>b / c\<close>: zero where the
  exponential or the sum overflows.
\<close>

definition threshold_value :: "real \<Rightarrow> real \<Rightarrow> real" where
  "threshold_value c q =
     (if overflow_threshold \<le> exp q \<or> overflow_threshold \<le> c + round64_real (exp q) then 0
      else round64_real (c / round64_real (c + round64_real (exp q))))"


definition inverse_sigmoid :: "real \<Rightarrow> real \<Rightarrow> real" where
  "inverse_sigmoid c b = c / (c + exp (b / c))"

section \<open>A small instance\<close>

text \<open>
  One node, one unit, one layer, two input steps and two output steps. The cell adds the
  sum of its input and one to every entry of the hidden state; the projection doubles.
\<close>

definition example_cell :: dcgru where
  "example_cell =
     \<lparr>dcgru_forward = (\<lambda>x h. Inr (h\<lparr>elems := map (\<lambda>v. v + sum_list (elems x) + 1) (elems h)\<rparr>)),
      dcgru_nparams = 4\<rparr>"

definition example_linear :: linear where
  "example_linear = \<lparr>linear_forward = (\<lambda>x. Inr (x\<lparr>elems := map (\<lambda>v. 2 * v) (elems x)\<rparr>))\<rparr>"

definition example_kwargs :: model_kwargs where
  "example_kwargs =
     \<lparr>kw_max_diffusion_step = None, kw_cl_decay_steps = None, kw_filter_type = None,
      kw_num_nodes = None, kw_num_rnn_layers = None, kw_rnn_units = Some 1,
      kw_use_gc_for_ru = None, kw_input_dim = None, kw_seq_len = Some 2,
      kw_output_dim = None, kw_horizon = Some 2, kw_use_curriculum_learning = None\<rparr>"

definition example_encoder :: encoder_t where
  "example_encoder =
     \<lparr>adj_mx = [[1]], max_diffusion_step = 2, cl_decay_steps = 1000,
      filter_type = ''laplacian'', num_nodes = 1, num_rnn_layers = 1, rnn_units = 1,
      use_gc_for_ru = True, hidden_state_size = 1,
      input_dim = 1, seq_len = 2, enc_dcgru_layers = [example_cell]\<rparr>"

definition example_decoder :: decoder_t where
  "example_decoder =
     \<lparr>adj_mx = [[1]], max_diffusion_step = 2, cl_decay_steps = 1000,
      filter_type = ''laplacian'', num_nodes = 1, num_rnn_layers = 1, rnn_units = 1,
      use_gc_for_ru = True, hidden_state_size = 1,
      output_dim = 1, horizon = 2, projection_layer = example_linear,
      dec_dcgru_layers = [example_cell]\<rparr>"

definition example_model :: dcrnn where
  "example_model =
     \<lparr>adj_mx = [[1]], max_diffusion_step = 2, cl_decay_steps = 1000,
      filter_type = ''laplacian'', num_nodes = 1, num_rnn_layers = 1, rnn_units = 1,
      use_gc_for_ru = True, hidden_state_size = 1,
      scaler = Inr, encoder_model = example_encoder, decoder_model = example_decoder,
      use_curriculum_learning = False, training = True,
      param_grads = replicate 10 None\<rparr>"

definition example_inputs :: tensor where
  "example_inputs = \<lparr>dtype = Float32, shape = [2, 1, 1], elems = [1, 2]\<rparr>"

definition example_labels :: tensor where
  "example_labels = \<lparr>dtype = Float32, shape = [2, 1, 1], elems = [3, 4]\<rparr>"

definition example_batch :: "tensor \<times> tensor" where
  "example_batch =
     (\<lparr>dtype = Float32, shape = [1, 2, 1, 1], elems = [1, 2]\<rparr>,
      \<lparr>dtype = Float32, shape = [1, 2, 1, 1], elems = [3, 4]\<rparr>)"

text \<open>
  The hidden state the encoder of the instance returns, the state in which its decoder
  starts from it, and the instance with curriculum learning enabled.
\<close>

definition example_hidden :: tensor where
  "example_hidden = \<lparr>dtype = Float32, shape = [1, 1, 1], elems = [5]\<rparr>"

definition example_start :: decoder_state where
  "example_start =
     \<lparr>decoder_input = \<lparr>dtype = Float32, shape = [1, 1], elems = [0]\<rparr>,
      decoder_hidden_state = example_hidden, outputs = [], draws = 0\<rparr>"

definition example_teacher :: dcrnn where
  "example_teacher = example_model\<lparr>use_curriculum_learning := True\<rparr>"



section \<open>Inputs on which the decoder returns\<close>

text \<open>
  The decoder side of a model is well shaped for a hidden state \<open>h\<close> and a batch size
  \<open>B\<close> when the horizon and the sizes are positive, \<open>h\<close> has one slice of shape
  \<open>(B, num_nodes * rnn_units)\<close> for every layer, every cell maps a slice of that shape to
  one of the same shape, and the projection maps \<open>B * num_nodes\<close> rows of \<open>rnn_units\<close>
  entries to as many rows of \<open>output_dim\<close> entries. The teacher signals are usable
  when, in training mode with curriculum learning, the threshold computation returns for
  the number of batches seen and the labels have a step for every step of the horizon.
\<close>

definition well_shaped_decoder :: "dcrnn \<Rightarrow> tensor \<Rightarrow> nat \<Rightarrow> bool" where
  "well_shaped_decoder m h B \<longleftrightarrow>
     (let dec = decoder_model m;
          N = nat (num_nodes dec); U = nat (rnn_units dec); D = nat (output_dim dec);
          L = length (dec_dcgru_layers dec)
      in 1 \<le> horizon dec \<and> 0 < num_nodes dec \<and> 0 < rnn_units dec \<and> 0 < output_dim dec \<and>
         0 < L \<and> num_nodes m = num_nodes dec \<and> shape h = [L, B, N * U] \<and>
         (\<forall>l\<in>set (dec_dcgru_layers dec). \<forall>x hh. shape hh = [B, N * U] \<longrightarrow>
            (\<exists>r. dcgru_forward l x hh = Inr r \<and> shape r = [B, N * U])) \<and>
         (\<forall>x. shape x = [B * N, U] \<longrightarrow>
            (\<exists>r. linear_forward (projection_layer dec) x = Inr r \<and> shape r = [B * N, D])))"

definition usable_teacher_signals :: "dcrnn \<Rightarrow> tensor option \<Rightarrow> real option \<Rightarrow> bool" where
  "usable_teacher_signals m labels batches_seen \<longleftrightarrow>
     (training m \<and> use_curriculum_learning m \<longrightarrow>
        (\<exists>th. compute_sampling_threshold m batches_seen = Inr th) \<and>
        (\<exists>lab n rest. labels = Some lab \<and> shape lab = n # rest \<and>
           nat (horizon (decoder_model m)) \<le> n))"

section \<open>Properties\<close>

subsection \<open>Rounding to binary64\<close>

lemma round_half_even_of_int: "round_half_even (of_int n) = n"
  by (simp add: round_half_even_def)

lemma round_half_even_range:
  "round_half_even x = \<lfloor>x\<rfloor> \<or> round_half_even x = \<lfloor>x\<rfloor> + 1"
  by (simp add: round_half_even_def Let_def)

lemma round_half_even_mono:
  assumes "x \<le> y"
  shows "round_half_even x \<le> round_half_even y"
proof (cases "\<lfloor>x\<rfloor> = \<lfloor>y\<rfloor>")
  case True
  with assms show ?thesis
    by (auto simp: round_half_even_def Let_def)
next
  case False
  with assms have "\<lfloor>x\<rfloor> + 1 \<le> \<lfloor>y\<rfloor>"
    using floor_mono [of x y] by linarith
  with round_half_even_range [of x] round_half_even_range [of y] show ?thesis
    by linarith
qed

lemma round_half_even_le: "x \<le> of_int n \<Longrightarrow> round_half_even x \<le> n"
  using round_half_even_mono [of x "of_int n"] by (simp add: round_half_even_of_int)

lemma round_half_even_ge: "of_int n \<le> x \<Longrightarrow> n \<le> round_half_even x"
  using round_half_even_mono [of "of_int n" x] by (simp add: round_half_even_of_int)

lemma round_half_even_minus: "round_half_even (- x) = - round_half_even x"
proof (cases "x = of_int \<lfloor>x\<rfloor>")
  case True
  then have "round_half_even (- of_int \<lfloor>x\<rfloor>) = - round_half_even (of_int \<lfloor>x\<rfloor>)"
    using round_half_even_of_int [of "- \<lfloor>x\<rfloor>"] round_half_even_of_int [of "\<lfloor>x\<rfloor>"] by simp
  with True show ?thesis by simp
next
  case False
  then have f: "\<lfloor>- x\<rfloor> = - \<lfloor>x\<rfloor> - 1"
    by (simp add: floor_minus ceiling_altdef)
  have r: "0 < x - of_int \<lfloor>x\<rfloor>" "x - of_int \<lfloor>x\<rfloor> < 1"
    using False by linarith+
  show ?thesis
    unfolding round_half_even_def Let_def f using r by (auto simp: algebra_simps)
qed


lemma two_powr_int: "2 powr (real_of_int k) = (2::real) powi k"
  by (simp add: powr_real_of_int' )

lemma float_exponent_minus: "float_exponent (- x) = float_exponent x"
  by (simp add: float_exponent_def)

lemma ulp_minus: "ulp (- x) = ulp x"
  by (simp add: ulp_def float_exponent_minus)

lemma ulp_pos: "0 < ulp x"
  by (simp add: ulp_def)

lemma float_exponent_mono:
  assumes "0 < x" and "x \<le> y"
  shows "float_exponent x \<le> float_exponent y"
proof -
  from assms have "log 2 \<bar>x\<bar> \<le> log 2 \<bar>y\<bar>" by simp
  then have "\<lfloor>log 2 \<bar>x\<bar>\<rfloor> \<le> \<lfloor>log 2 \<bar>y\<bar>\<rfloor>" by (rule floor_mono)
  then show ?thesis by (simp add: float_exponent_def)
qed

lemma float_exponent_upper:
  assumes "0 < x"
  shows "x < 2 powi (float_exponent x + 1)"
proof -
  have "log 2 x < real_of_int (\<lfloor>log 2 x\<rfloor> + 1)" by linarith
  also have "\<dots> \<le> real_of_int (float_exponent x + 1)"
    using assms by (simp add: float_exponent_def)
  finally have "2 powr (log 2 x) < 2 powr (real_of_int (float_exponent x + 1))"
    by simp
  with assms show ?thesis
    by (simp only: two_powr_int) simp
qed

lemma float_exponent_lower:
  assumes "2 powi (- 1022) \<le> x"
  shows "2 powi (float_exponent x) \<le> x"
proof -
  have pos: "0 < x"
    using assms by (smt (verit) zero_less_power_int)
  have "2 powr (real_of_int (- 1022)) \<le> x"
    using assms by (simp only: two_powr_int)
  then have "real_of_int (- 1022) \<le> log 2 x"
    using pos by (simp add: le_log_iff)
  then have "- 1022 \<le> \<lfloor>log 2 x\<rfloor>"
    by (simp add: le_floor_iff)
  then have e: "float_exponent x = \<lfloor>log 2 x\<rfloor>"
    using pos by (simp add: float_exponent_def)
  have "real_of_int \<lfloor>log 2 x\<rfloor> \<le> log 2 x" by simp
  then have "2 powr (real_of_int \<lfloor>log 2 x\<rfloor>) \<le> x"
    using pos by (simp add: powr_le_iff)
  then show ?thesis
    unfolding e by (simp only: two_powr_int)
qed

lemma round64_real_minus: "round64_real (- x) = - round64_real x"
  by (simp add: round64_real_def ulp_minus round_half_even_minus)

lemma round64_real_nonneg: "0 \<le> x \<Longrightarrow> 0 \<le> round64_real x"
  using round_half_even_ge [of 0 "x / ulp x"] ulp_pos [of x]
  by (simp add: round64_real_def)

lemma two_powi_diff: "(2::real) powi a / 2 powi b = 2 powi (a - b)"
  by (simp add: power_int_diff)

lemma two_powi_mult: "(2::real) powi a * 2 powi b = 2 powi (a + b)"
  by (simp add: power_int_add)

lemma round64_real_upper:
  assumes "0 < x"
  shows "round64_real x \<le> 2 powi (float_exponent x + 1)"
proof -
  let ?e = "float_exponent x"
  have "x / ulp x \<le> 2 powi (?e + 1) / ulp x"
    using float_exponent_upper [OF assms] ulp_pos [of x] by (simp add: divide_right_mono)
  also have "\<dots> = 2 powi 53"
    by (simp add: ulp_def two_powi_diff)
  also have "\<dots> = real_of_int (2 ^ 53)" by simp
  finally have "round_half_even (x / ulp x) \<le> 2 ^ 53"
    by (rule round_half_even_le)
  then have "real_of_int (round_half_even (x / ulp x)) \<le> 2 powi 53"
    by (metis of_int_le_iff of_int_numeral of_int_power power_int_numeral numeral_One of_int_numeral power_int_of_nat)
  then have "real_of_int (round_half_even (x / ulp x)) * ulp x \<le> 2 powi 53 * ulp x"
    using ulp_pos [of x] by (simp add: mult_right_mono)
  also have "\<dots> = 2 powi (?e + 1)"
    unfolding ulp_def two_powi_mult by (simp add: algebra_simps)
  finally show ?thesis
    using assms by (simp add: round64_real_def)
qed


lemma round64_real_lower:
  assumes "2 powi (- 1022) \<le> x"
  shows "2 powi (float_exponent x) \<le> round64_real x"
proof -
  let ?e = "float_exponent x"
  have pos: "0 < x"
    using assms by (smt (verit) zero_less_power_int)
  have "2 powi 52 = 2 powi ?e / ulp x"
    by (simp add: ulp_def two_powi_diff)
  also have "\<dots> \<le> x / ulp x"
    using float_exponent_lower [OF assms] ulp_pos [of x] by (simp add: divide_right_mono)
  finally have "real_of_int (2 ^ 52) \<le> x / ulp x" by simp
  then have "2 ^ 52 \<le> round_half_even (x / ulp x)"
    by (rule round_half_even_ge)
  then have "real_of_int (2 ^ 52) \<le> real_of_int (round_half_even (x / ulp x))"
    by (simp only: of_int_le_iff)
  then have "2 powi 52 \<le> real_of_int (round_half_even (x / ulp x))"
    by simp
  then have "2 powi 52 * ulp x \<le> real_of_int (round_half_even (x / ulp x)) * ulp x"
    using ulp_pos [of x] by (simp only: mult_le_cancel_right_pos)
  moreover have "2 powi 52 * ulp x = 2 powi ?e"
    unfolding ulp_def two_powi_mult by (simp add: algebra_simps)
  ultimately show ?thesis
    using pos by (simp add: round64_real_def)
qed

lemma round64_real_mono_pos:
  assumes "0 < x" and "x \<le> y"
  shows "round64_real x \<le> round64_real y"
proof (cases "float_exponent x = float_exponent y")
  case True
  then have u: "ulp x = ulp y" by (simp add: ulp_def)
  from assms(2) have "x / ulp y \<le> y / ulp y"
    using ulp_pos [of y] by (simp add: divide_right_mono)
  then have "round_half_even (x / ulp y) \<le> round_half_even (y / ulp y)"
    by (rule round_half_even_mono)
  then have "real_of_int (round_half_even (x / ulp y)) * ulp y \<le>
             real_of_int (round_half_even (y / ulp y)) * ulp y"
    using ulp_pos [of y] by (simp only: mult_le_cancel_right_pos of_int_le_iff)
  with assms u show ?thesis
    by (simp add: round64_real_def)
next
  case False
  with float_exponent_mono [OF assms] have lt: "float_exponent x + 1 \<le> float_exponent y"
    by simp
  then have "- 1022 < float_exponent y"
    by (simp add: float_exponent_def [of x])
  then have ey: "float_exponent y = \<lfloor>log 2 \<bar>y\<bar>\<rfloor>"
    by (simp add: float_exponent_def)
  have ypos: "0 < y" using assms by simp
  have "- 1022 \<le> \<lfloor>log 2 y\<rfloor>"
    using \<open>- 1022 < float_exponent y\<close> ey ypos by linarith
  then have "real_of_int (- 1022) \<le> log 2 y"
    by (simp only: le_floor_iff)
  then have "2 powr (real_of_int (- 1022)) \<le> y"
    using ypos by (simp add: powr_le_iff)
  then have n: "2 powi (- 1022) \<le> y"
    by (simp only: two_powr_int)
  have "round64_real x \<le> 2 powi (float_exponent x + 1)"
    by (rule round64_real_upper [OF assms(1)])
  also have "\<dots> \<le> 2 powi (float_exponent y)"
    using lt by (intro power_int_increasing) simp_all
  also have "\<dots> \<le> round64_real y"
    by (rule round64_real_lower [OF n])
  finally show ?thesis .
qed

lemma round64_real_mono:
  assumes "x \<le> y"
  shows "round64_real x \<le> round64_real y"
proof -
  consider "0 < x" | "x \<le> 0" "0 \<le> y" | "y < 0" by linarith
  then show ?thesis
  proof cases
    case 1
    from 1 assms show ?thesis by (rule round64_real_mono_pos)
  next
    case 2
    from 2(1) have "0 \<le> round64_real (- x)"
      by (intro round64_real_nonneg) simp
    then have "round64_real x \<le> 0" by (simp add: round64_real_minus)
    with round64_real_nonneg [OF 2(2)] show ?thesis by simp
  next
    case 3
    with assms have "0 < - y" "- y \<le> - x" by simp_all
    then have "round64_real (- y) \<le> round64_real (- x)"
      by (rule round64_real_mono_pos)
    then show ?thesis by (simp add: round64_real_minus)
  qed
qed

lemma round64_real_exact:
  assumes "x / ulp x = real_of_int n"
  shows "round64_real x = x"
proof -
  have "real_of_int (round_half_even (x / ulp x)) * ulp x = (x / ulp x) * ulp x"
    unfolding assms by (simp add: round_half_even_of_int)
  also have "\<dots> = x"
    using ulp_pos [of x] by simp
  finally show ?thesis
    by (simp add: round64_real_def)
qed

lemma round64_real_of_nat_pos:
  assumes "0 < n" and "n < 2 ^ 53"
  shows "round64_real (real n) = real n"
proof -
  let ?e = "float_exponent (real n)"
  have "real n < 2 powi 53"
    using assms(2) by (metis of_nat_less_iff of_nat_numeral of_nat_power power_int_numeral numeral_One power_int_of_nat)
  have one: "2 powi 0 \<le> real n"
    using assms(1) by simp
  have "2 powi (- 1022) \<le> (2::real) powi 0"
    by (intro power_int_increasing) simp_all
  with one have n: "2 powi (- 1022) \<le> real n" by linarith
  have "2 powi ?e \<le> real n"
    by (rule float_exponent_lower [OF n])
  with \<open>real n < 2 powi 53\<close> have "(2::real) powi ?e < 2 powi 53" by linarith
  then have "?e < 53"
    by (rule power_int_le_imp_less_exp [rotated]) simp_all
  then have le: "?e \<le> 52" by simp
  have "0 \<le> ?e"
  proof -
    have "0 \<le> log 2 (real n)" using assms(1) by simp
    then have "0 \<le> \<lfloor>log 2 (real n)\<rfloor>" by simp
    then show ?thesis by (simp add: float_exponent_def)
  qed
  have "real n / ulp (real n) = real n * 2 powi (52 - ?e)"
    by (simp add: ulp_def power_int_diff)
  also have "2 powi (52 - ?e) = (2::real) ^ nat (52 - ?e)"
    using le by (simp add: power_int_def)
  also have "real n * 2 ^ nat (52 - ?e) = real_of_int (int n * 2 ^ nat (52 - ?e))"
    by simp
  finally show ?thesis
    by (rule round64_real_exact)
qed

lemma round64_real_of_int:
  assumes "\<bar>n\<bar> < 2 ^ 53"
  shows "round64_real (real_of_int n) = real_of_int n"
proof -
  consider "n = 0" | "0 < n" | "n < 0" by linarith
  then show ?thesis
  proof cases
    case 1
    then show ?thesis by (simp add: round64_real_def)
  next
    case 2
    with assms have "0 < nat n" "nat n < 2 ^ 53"
      by (simp_all add: nat_less_iff)
    from round64_real_of_nat_pos [OF this] 2 show ?thesis by simp
  next
    case 3
    with assms have "0 < nat (- n)" "nat (- n) < 2 ^ 53"
      by (simp_all add: nat_less_iff)
    from round64_real_of_nat_pos [OF this] 3 have "round64_real (- real_of_int n) = - real_of_int n"
      by simp
    then show ?thesis by (simp add: round64_real_minus)
  qed
qed


lemma overflow_threshold_pos: "1 < overflow_threshold"
  by (simp add: overflow_threshold_def)

lemma round64_real_one: "round64_real 1 = 1"
  using round64_real_of_int [of 1] by simp

lemma round64_real_zero: "round64_real 0 = 0"
  by (simp add: round64_real_def)

lemma float_threshold_value:
  assumes "1 \<le> c" and "round64_real c = c"
  shows "float_div c (float_add c (np_exp q)) = Finite (threshold_value c q) \<and>
         0 \<le> threshold_value c q \<and> threshold_value c q \<le> 1"
proof (cases "overflow_threshold \<le> exp q \<or> overflow_threshold \<le> c + round64_real (exp q)")
  case True
  have "0 < exp q" by simp
  have e: "0 \<le> round64_real (exp q)"
    by (rule round64_real_nonneg) simp
  have "- overflow_threshold < exp q"
    using overflow_threshold_pos exp_gt_zero [of q] by linarith
  with True have "float_add c (np_exp q) = PlusInf"
    using overflow_threshold_pos by (auto simp: np_exp_def round64_def not_le)
  with True show ?thesis
    by (simp add: threshold_value_def)
next
  case False
  let ?e = "round64_real (exp q)" and ?d = "round64_real (c + round64_real (exp q))"
  have e: "0 \<le> ?e"
    by (rule round64_real_nonneg) simp
  have "- overflow_threshold < exp q"
    using overflow_threshold_pos exp_gt_zero [of q] by linarith
  then have ne: "np_exp q = Finite ?e"
    using False by (simp add: np_exp_def round64_def not_le)
  have "round64_real c \<le> ?d"
    using e by (intro round64_real_mono) simp
  with assms have d: "c \<le> ?d" "0 < ?d" by simp_all
  have nd: "float_add c (np_exp q) = Finite ?d"
    using False ne e assms(1) overflow_threshold_pos by (simp add: round64_def not_le)
  have q1: "0 < c / ?d" "c / ?d \<le> 1"
    using d assms(1) by simp_all
  then have r: "round64 (c / ?d) = Finite (round64_real (c / ?d))"
    using overflow_threshold_pos by (simp add: round64_def not_le)
  have "0 \<le> round64_real (c / ?d)"
    using q1 by (intro round64_real_nonneg) simp
  moreover have "round64_real (c / ?d) \<le> round64_real 1"
    using q1 by (intro round64_real_mono)
  ultimately show ?thesis
    using False nd r d by (simp add: threshold_value_def round64_real_one)
qed

lemma threshold_value_antimono:
  assumes "1 \<le> c" and "round64_real c = c" and "q1 \<le> q2"
  shows "threshold_value c q2 \<le> threshold_value c q1"
proof (cases "overflow_threshold \<le> exp q2 \<or> overflow_threshold \<le> c + round64_real (exp q2)")
  case True
  then have "threshold_value c q2 = 0" by (simp add: threshold_value_def)
  with float_threshold_value [OF assms(1,2), of q1] show ?thesis by simp
next
  case False
  have e: "round64_real (exp q1) \<le> round64_real (exp q2)"
    using assms(3) by (intro round64_real_mono) simp
  have e1: "0 \<le> round64_real (exp q1)"
    by (rule round64_real_nonneg) simp
  from False e assms(3) have F1:
    "\<not> (overflow_threshold \<le> exp q1 \<or> overflow_threshold \<le> c + round64_real (exp q1))"
    by (smt (verit) exp_le_cancel_iff)
  let ?d1 = "round64_real (c + round64_real (exp q1))"
  let ?d2 = "round64_real (c + round64_real (exp q2))"
  have d12: "?d1 \<le> ?d2"
    using e by (intro round64_real_mono) simp
  have "round64_real c \<le> ?d1"
    using e1 by (intro round64_real_mono) simp
  with assms have d1: "0 < ?d1" by simp
  have "c / ?d2 \<le> c / ?d1"
    using d1 d12 assms(1) by (intro divide_left_mono) (auto intro: mult_pos_pos)
  then have "round64_real (c / ?d2) \<le> round64_real (c / ?d1)"
    by (rule round64_real_mono)
  with False F1 show ?thesis
    by (simp add: threshold_value_def)
qed

lemma exp_800_overflows: "overflow_threshold \<le> exp 800"
proof -
  have "(5 / 2 :: real) \<le> exp 1"
    using exp_lower_Taylor_quadratic [of "1::real"] by simp
  then have "(5 / 2 :: real) ^ 800 \<le> exp 1 ^ 800"
    by (intro power_mono) simp_all
  also have "\<dots> = exp (of_nat 800 * 1)"
    by (simp only: exp_of_nat_mult)
  finally have "(5 / 2 :: real) ^ 800 \<le> exp 800" by simp
  moreover have "(2::real) ^ 1024 \<le> (5 / 2) ^ 800"
  proof -
    have "(2::real) ^ 33 \<le> (5 / 2) ^ 25"
      by (simp add: power_divide)
    then have "((2::real) ^ 33) ^ 32 \<le> ((5 / 2) ^ 25) ^ 32"
      by (intro power_mono) simp_all
    then have "(2::real) ^ 1056 \<le> (5 / 2) ^ 800"
      by (simp only: flip: power_mult) simp
    moreover have "(2::real) ^ 1024 \<le> 2 ^ 1056"
      by (intro power_increasing) simp_all
    ultimately show ?thesis by linarith
  qed
  ultimately show ?thesis
    by (simp add: overflow_threshold_def)
qed

lemma threshold_value_overflow:
  assumes "800 \<le> q"
  shows "threshold_value c q = 0"
proof -
  from assms have "exp 800 \<le> exp q" by simp
  with exp_800_overflows have "overflow_threshold \<le> exp q" by linarith
  then show ?thesis
    by (simp add: threshold_value_def)
qed


lemma round64_real_dyadic:
  assumes "\<bar>n\<bar> < 2 ^ 53" and "- 1074 \<le> j"
  shows "round64_real (real_of_int n * 2 powi j) = real_of_int n * 2 powi j"
proof (cases "n = 0")
  case True
  then show ?thesis by (simp add: round64_real_def)
next
  case False
  let ?x = "real_of_int n * 2 powi j"
  let ?e = "float_exponent ?x"
  have ax: "\<bar>?x\<bar> = real_of_int \<bar>n\<bar> * 2 powi j"
    by (simp add: abs_mult)
  have pos: "0 < \<bar>?x\<bar>"
    using False by simp
  have "real_of_int \<bar>n\<bar> < real_of_int (2 ^ 53)"
    using assms(1) by (simp only: of_int_less_iff)
  then have "real_of_int \<bar>n\<bar> < 2 powi 53" by simp
  then have "\<bar>?x\<bar> < 2 powi 53 * 2 powi j"
    unfolding ax by (intro mult_strict_right_mono) simp_all
  then have "\<bar>?x\<bar> < 2 powr (real_of_int (53 + j))"
    unfolding two_powi_mult by (simp only: two_powr_int)
  then have "log 2 \<bar>?x\<bar> < real_of_int (53 + j)"
    using pos by (simp add: log_less_iff)
  then have "\<lfloor>log 2 \<bar>?x\<bar>\<rfloor> < 53 + j"
    by (simp only: floor_less_iff)
  with assms(2) have le: "?e - 52 \<le> j"
    by (simp add: float_exponent_def)
  have "?x / ulp ?x = real_of_int n * (2 powi j / 2 powi (?e - 52))"
    by (simp add: ulp_def)
  also have "2 powi j / 2 powi (?e - 52) = (2::real) powi (j - (?e - 52))"
    by (rule two_powi_diff)
  also have "\<dots> = 2 ^ nat (j - (?e - 52))"
    using le by (simp add: power_int_def)
  also have "real_of_int n * 2 ^ nat (j - (?e - 52)) =
             real_of_int (n * 2 ^ nat (j - (?e - 52)))"
    by simp
  finally show ?thesis
    by (rule round64_real_exact)
qed

lemma round64_real_three_quarters: "round64_real (3 / 4) = 3 / 4"
proof -
  have "real_of_int 3 * 2 powi (- 2) = 3 / 4"
    by (simp add: power_int_def power2_eq_square)
  with round64_real_dyadic [of 3 "- 2"] show ?thesis by simp
qed

lemma example_threshold_above_half: "1 / 2 < round64_real (1000 / 1001)"
proof -
  have "round64_real (3 / 4) \<le> round64_real (1000 / 1001)"
    by (rule round64_real_mono) simp
  then show ?thesis
    by (simp add: round64_real_three_quarters)
qed

lemma example_threshold_doubled: "1 < round64_real (1000 / 1001) * 2"
  using example_threshold_above_half by simp

subsection \<open>The sampling threshold\<close>

lemma inverse_sigmoid_bounds:
  assumes "0 < c"
  shows "0 < inverse_sigmoid c b \<and> inverse_sigmoid c b < 1"
proof -
  have "0 < exp (b / c)" by simp
  with assms show ?thesis
    by (simp add: inverse_sigmoid_def add_pos_pos)
qed

lemma inverse_sigmoid_strict_decreasing:
  assumes "0 < c" and "b1 < b2"
  shows "inverse_sigmoid c b2 < inverse_sigmoid c b1"
proof -
  from assms have "b1 / c < b2 / c"
    by (simp add: divide_strict_right_mono)
  then have e: "c + exp (b1 / c) < c + exp (b2 / c)" by simp
  have p: "0 < c + exp (b1 / c)"
    using assms(1) by (simp add: add_pos_pos)
  have p2: "0 < c + exp (b2 / c)" by (rule less_trans [OF p e])
  from p2 p have "0 < (c + exp (b2 / c)) * (c + exp (b1 / c))"
    by (rule mult_pos_pos)
  with e assms(1) show ?thesis
    unfolding inverse_sigmoid_def by (intro divide_strict_left_mono) simp_all
qed

lemma inverse_sigmoid_tends_to_zero:
  assumes "0 < c"
  shows "(inverse_sigmoid c \<longlongrightarrow> 0) at_top"
proof -
  have "LIM b at_top. (1 / c) * b :> at_top"
    using assms by (intro filterlim_tendsto_pos_mult_at_top [OF tendsto_const _ filterlim_ident]) simp
  then have "LIM b at_top. b / c :> at_top"
    by simp
  then have "LIM b at_top. exp (b / c) :> at_top"
    by (rule filterlim_compose [OF exp_at_top])
  then have "LIM b at_top. c + exp (b / c) :> at_top"
    by (rule filterlim_tendsto_add_at_top [OF tendsto_const])
  then have "((\<lambda>b. c / (c + exp (b / c))) \<longlongrightarrow> 0) at_top"
    by (rule real_tendsto_divide_at_top [OF tendsto_const])
  then show ?thesis
    by (simp add: inverse_sigmoid_def [abs_def])
qed

lemma inverse_sigmoid_at_zero:
  assumes "0 < c"
  shows "(inverse_sigmoid c \<longlongrightarrow> c / (c + 1)) (at 0)"
proof -
  have nz: "c + exp (b / c) \<noteq> 0" for b
    using assms by (smt (verit) exp_gt_zero)
  have "isCont (\<lambda>b. c / (c + exp (b / c))) 0"
    using nz assms by (intro continuous_intros) auto
  then have "((\<lambda>b. c / (c + exp (b / c))) \<longlongrightarrow> c / (c + exp (0 / c))) (at 0)"
    by (simp add: isCont_def)
  then show ?thesis
    by (simp add: inverse_sigmoid_def [abs_def])
qed

lemma inverse_sigmoid_large_decay:
  "((\<lambda>c. inverse_sigmoid c b) \<longlongrightarrow> 1) at_top"
proof -
  have "((\<lambda>c::real. b / c) \<longlongrightarrow> 0) at_top"
    by (rule real_tendsto_divide_at_top [OF tendsto_const filterlim_ident])
  then have "((\<lambda>c. exp (b / c)) \<longlongrightarrow> exp 0) at_top"
    by (rule tendsto_exp)
  then have "((\<lambda>c. exp (b / c) / c) \<longlongrightarrow> 0) at_top"
    by (rule real_tendsto_divide_at_top [OF _ filterlim_ident])
  then have "((\<lambda>c. 1 / (1 + exp (b / c) / c)) \<longlongrightarrow> 1 / (1 + 0)) at_top"
    by (intro tendsto_intros) auto
  moreover have "eventually (\<lambda>c. 1 / (1 + exp (b / c) / c) = inverse_sigmoid c b) at_top"
    using eventually_gt_at_top [of "0::real"]
  proof eventually_elim
    case (elim c)
    then show ?case
      by (simp add: inverse_sigmoid_def field_simps)
  qed
  ultimately show ?thesis
    by (simp add: tendsto_cong)
qed

lemma round64_finite:
  "\<bar>x\<bar> < overflow_threshold \<Longrightarrow> round64 x = Finite (round64_real x)"
  by (auto simp: round64_def)

lemma round64_Finite_D: "round64 x = Finite y \<Longrightarrow> y = round64_real x"
  by (auto simp: round64_def split: if_splits)

lemma py_float_int:
  assumes "\<bar>n\<bar> < 2 ^ 53"
  shows "py_float (real_of_int n) = Inr (real_of_int n)"
proof -
  have "real_of_int \<bar>n\<bar> < real_of_int (2 ^ 53)"
    using assms by (simp only: of_int_less_iff)
  then have "\<bar>real_of_int n\<bar> < overflow_threshold"
    by (simp add: overflow_threshold_def)
  then show ?thesis
    by (simp add: py_float_def round64_finite round64_real_of_int [OF assms])
qed

lemma compute_sampling_threshold_float:
  assumes "1 \<le> cl_decay_steps m" and "cl_decay_steps m < 2 ^ 53"
      and "round64 (b / real_of_int (cl_decay_steps m)) = Finite q"
  shows "compute_sampling_threshold m (Some b) =
           Inr (Finite (threshold_value (real_of_int (cl_decay_steps m)) q)) \<and>
         0 \<le> threshold_value (real_of_int (cl_decay_steps m)) q \<and>
         threshold_value (real_of_int (cl_decay_steps m)) q \<le> 1"
proof -
  let ?c = "real_of_int (cl_decay_steps m)"
  from assms(1,2) have a: "\<bar>cl_decay_steps m\<bar> < 2 ^ 53" by simp
  have c: "py_float ?c = Inr ?c" by (rule py_float_int [OF a])
  have r: "round64_real ?c = ?c" by (rule round64_real_of_int [OF a])
  from assms(1) have "1 \<le> ?c" by simp
  from float_threshold_value [OF this r, of q] assms(1,3) c show ?thesis
    by (simp add: compute_sampling_threshold_def py_float_def)
qed

lemma compute_sampling_threshold_Finite_D:
  assumes "1 \<le> cl_decay_steps m" and "cl_decay_steps m < 2 ^ 53"
      and "compute_sampling_threshold m (Some b) = Inr (Finite r)"
  shows "r = threshold_value (real_of_int (cl_decay_steps m))
               (round64_real (b / real_of_int (cl_decay_steps m)))"
proof -
  from assms(1,3) obtain q where
    q: "round64 (b / real_of_int (cl_decay_steps m)) = Finite q"
    by (auto simp: compute_sampling_threshold_def py_float_def split: fnum.splits sum.splits)
  from compute_sampling_threshold_float [OF assms(1,2) q] assms(3) round64_Finite_D [OF q]
  show ?thesis by simp
qed

lemma threshold_value_zero:
  assumes "1 \<le> n" and "n < 2 ^ 53"
  shows "threshold_value (real_of_int n) 0 =
           round64_real (real_of_int n / (real_of_int n + 1)) \<and>
         1 / 2 \<le> threshold_value (real_of_int n) 0 \<and>
         threshold_value (real_of_int n) 0 < 1"
proof -
  let ?c = "real_of_int n"
  have c1: "1 \<le> ?c" using assms(1) by simp
  from assms(2) have "n + 1 \<le> 2 ^ 53" by simp
  then have "real_of_int (n + 1) \<le> real_of_int (2 ^ 53)"
    by (simp only: of_int_le_iff)
  then have c2: "?c + 1 \<le> 2 ^ 53" by simp
  have s: "round64_real (?c + 1) = ?c + 1"
  proof (cases "n + 1 < 2 ^ 53")
    case True
    with assms(1) have "\<bar>n + 1\<bar> < 2 ^ 53" by simp
    from round64_real_of_int [OF this] show ?thesis by simp
  next
    case False
    with assms(2) have "n + 1 = 2 ^ 53" by simp
    then have "real_of_int (n + 1) = real_of_int (2 ^ 53)" by (simp only:)
    then have e: "?c + 1 = real_of_int (2 ^ 52) * 2 powi 1" by simp
    have "round64_real (real_of_int (2 ^ 52) * 2 powi 1) = real_of_int (2 ^ 52) * 2 powi 1"
      by (rule round64_real_dyadic) simp_all
    then show ?thesis by (simp only: e)
  qed
  have no: "\<not> (overflow_threshold \<le> exp 0 \<or> overflow_threshold \<le> ?c + round64_real (exp 0))"
    using c2 by (simp add: round64_real_one overflow_threshold_def)
  then have v: "threshold_value ?c 0 = round64_real (?c / (?c + 1))"
    unfolding threshold_value_def by (simp add: round64_real_one s)
  have h: "round64_real (1 / 2) = 1 / 2"
  proof -
    have "real_of_int 1 * 2 powi (- 1) = 1 / 2" by (simp add: power_int_def)
    with round64_real_dyadic [of 1 "- 1"] show ?thesis by simp
  qed
  have "1 / 2 \<le> ?c / (?c + 1)"
    using c1 by (simp add: field_simps)
  then have "round64_real (1 / 2) \<le> round64_real (?c / (?c + 1))"
    by (rule round64_real_mono)
  with h have lo: "1 / 2 \<le> round64_real (?c / (?c + 1))" by simp
  let ?p = "real_of_int (2 ^ 53 - 1) * 2 powi (- 53)"
  have p: "round64_real ?p = ?p"
    by (rule round64_real_dyadic) simp_all
  have pv: "?p = 1 - 1 / 2 ^ 53"
    by (simp add: power_int_def field_simps)
  have "?c / (?c + 1) = 1 - 1 / (?c + 1)"
    using c1 by (simp add: field_simps)
  also have "\<dots> \<le> 1 - 1 / 2 ^ 53"
    using c1 c2 by (simp add: frac_le)
  finally have "round64_real (?c / (?c + 1)) \<le> round64_real ?p"
    unfolding pv by (rule round64_real_mono)
  with p pv have hi: "round64_real (?c / (?c + 1)) < 1" by simp
  from v lo hi show ?thesis by simp
qed

text \<open>
  Claim C5, as it stands: the threshold is not strictly decreasing in \<open>batches_seen\<close>.
  With the default decay rate of 1000 the exponential overflows at 800000 and at 900000
  batches, and the function returns exactly zero at both.
\<close>

theorem sampling_threshold_not_strictly_decreasing:
  "cl_decay_steps example_model = 1000 \<and> (800000::real) < 900000 \<and>
   compute_sampling_threshold example_model (Some 800000) = Inr (Finite 0) \<and>
   compute_sampling_threshold example_model (Some 900000) = Inr (Finite 0)"
proof -
  have c: "cl_decay_steps example_model = 1000"
    by (simp add: example_model_def)
  have o: "(900::real) < overflow_threshold"
    by (simp add: overflow_threshold_def)
  have q1: "round64 (800000 / real_of_int (cl_decay_steps example_model)) = Finite 800"
    using round64_real_of_int [of 800] o by (simp add: c round64_finite)
  have q2: "round64 (900000 / real_of_int (cl_decay_steps example_model)) = Finite 900"
    using round64_real_of_int [of 900] o by (simp add: c round64_finite)
  have r: "(1::int) \<le> cl_decay_steps example_model" "cl_decay_steps example_model < 2 ^ 53"
    by (simp_all add: c)
  from compute_sampling_threshold_float [OF r q1] compute_sampling_threshold_float [OF r q2]
    threshold_value_overflow [of 800 1000] threshold_value_overflow [of 900 1000] c
  show ?thesis by simp
qed

text \<open>
  Claim C5, amended. For a decay rate from 1 up to \<open>2^53\<close>, where it is exact as a
  float, the threshold the function returns is a float between 0 and 1 wherever the
  quotient \<open>batches_seen / cl_decay_steps\<close> is in the range of the floats. It never
  increases with \<open>batches_seen\<close>, and it is exactly zero from the quotient 800 on,
  where the exponential has overflowed: it reaches zero and stays there. At no batches
  seen it is the rounded \<open>cl_decay_steps / (cl_decay_steps + 1)\<close>, at least one half and
  below one. The exact value \<open>c / (c + exp (b / c))\<close> that the floats approximate is
  strictly decreasing in \<open>b\<close>, below one, tends to zero as \<open>b\<close> tends to infinity and
  to \<open>c / (c + 1)\<close> as \<open>b\<close> tends to zero, which tends to one as \<open>c\<close> grows.
\<close>

theorem sampling_threshold_never_increases:
  assumes "1 \<le> cl_decay_steps m" and "cl_decay_steps m < 2 ^ 53"
  shows "(\<forall>b. \<bar>b / real_of_int (cl_decay_steps m)\<bar> < overflow_threshold \<longrightarrow>
            (\<exists>r. compute_sampling_threshold m (Some b) = Inr (Finite r) \<and> 0 \<le> r \<and> r \<le> 1)) \<and>
         (\<forall>b1 b2 r1 r2.
            b1 \<le> b2 \<and> compute_sampling_threshold m (Some b1) = Inr (Finite r1) \<and>
            compute_sampling_threshold m (Some b2) = Inr (Finite r2) \<longrightarrow> r2 \<le> r1) \<and>
         (\<forall>b. 800 \<le> b / real_of_int (cl_decay_steps m) \<and>
              b / real_of_int (cl_decay_steps m) < overflow_threshold \<longrightarrow>
            compute_sampling_threshold m (Some b) = Inr (Finite 0)) \<and>
         (\<exists>r. compute_sampling_threshold m (Some 0) = Inr (Finite r) \<and>
              r = round64_real (real_of_int (cl_decay_steps m) /
                                (real_of_int (cl_decay_steps m) + 1)) \<and>
              1 / 2 \<le> r \<and> r < 1) \<and>
         (\<forall>b1 b2. b1 < b2 \<longrightarrow>
              inverse_sigmoid (real_of_int (cl_decay_steps m)) b2 <
              inverse_sigmoid (real_of_int (cl_decay_steps m)) b1) \<and>
         (inverse_sigmoid (real_of_int (cl_decay_steps m)) \<longlongrightarrow> 0) at_top \<and>
         (\<forall>b. 0 < inverse_sigmoid (real_of_int (cl_decay_steps m)) b \<and>
              inverse_sigmoid (real_of_int (cl_decay_steps m)) b < 1) \<and>
         (inverse_sigmoid (real_of_int (cl_decay_steps m)) \<longlongrightarrow>
            real_of_int (cl_decay_steps m) / (real_of_int (cl_decay_steps m) + 1)) (at 0) \<and>
         ((\<lambda>c. c / (c + 1)) \<longlongrightarrow> (1::real)) at_top"
proof -
  let ?c = "real_of_int (cl_decay_steps m)"
  from assms have pos: "0 < ?c" and c1: "1 \<le> ?c" by simp_all
  from assms have a: "\<bar>cl_decay_steps m\<bar> < 2 ^ 53" by simp
  have rc: "round64_real ?c = ?c" by (rule round64_real_of_int [OF a])
  have A: "\<exists>r. compute_sampling_threshold m (Some b) = Inr (Finite r) \<and> 0 \<le> r \<and> r \<le> 1"
    if "\<bar>b / ?c\<bar> < overflow_threshold" for b
    using compute_sampling_threshold_float [OF assms round64_finite [OF that]] by blast
  have B: "r2 \<le> r1"
    if "b1 \<le> b2 \<and> compute_sampling_threshold m (Some b1) = Inr (Finite r1) \<and>
        compute_sampling_threshold m (Some b2) = Inr (Finite r2)" for b1 b2 r1 r2
  proof -
    from that pos have "b1 / ?c \<le> b2 / ?c"
      by (simp add: divide_right_mono)
    then have "round64_real (b1 / ?c) \<le> round64_real (b2 / ?c)"
      by (rule round64_real_mono)
    from threshold_value_antimono [OF c1 rc this]
      compute_sampling_threshold_Finite_D [OF assms, of b1 r1]
      compute_sampling_threshold_Finite_D [OF assms, of b2 r2] that
    show ?thesis by simp
  qed
  have C: "compute_sampling_threshold m (Some b) = Inr (Finite 0)"
    if "800 \<le> b / ?c \<and> b / ?c < overflow_threshold" for b
  proof -
    from that have "0 \<le> b / ?c" by linarith
    then have "\<bar>b / ?c\<bar> = b / ?c" by (rule abs_of_nonneg)
    with that have f: "\<bar>b / ?c\<bar> < overflow_threshold" by (simp only:)
    from that have "round64_real 800 \<le> round64_real (b / ?c)"
      by (intro round64_real_mono) simp
    then have "800 \<le> round64_real (b / ?c)"
      using round64_real_of_int [of 800] by simp
    from threshold_value_overflow [OF this, of ?c]
      compute_sampling_threshold_float [OF assms round64_finite [OF f]]
    show ?thesis by simp
  qed
  have D: "\<exists>r. compute_sampling_threshold m (Some 0) = Inr (Finite r) \<and>
              r = round64_real (?c / (?c + 1)) \<and> 1 / 2 \<le> r \<and> r < 1"
  proof -
    have "round64 (0 / ?c) = Finite 0"
      using overflow_threshold_pos by (simp add: round64_def round64_real_zero)
    from compute_sampling_threshold_float [OF assms this] threshold_value_zero [OF assms]
    show ?thesis by simp
  qed
  have "((\<lambda>c. inverse_sigmoid c 0) \<longlongrightarrow> 1) at_top"
    by (rule inverse_sigmoid_large_decay)
  then have l: "((\<lambda>c. c / (c + 1)) \<longlongrightarrow> (1::real)) at_top"
    by (simp add: inverse_sigmoid_def)
  show ?thesis
    using A B C D inverse_sigmoid_strict_decreasing [OF pos]
      inverse_sigmoid_tends_to_zero [OF pos] inverse_sigmoid_bounds [OF pos]
      inverse_sigmoid_at_zero [OF pos] l
    by (intro conjI allI impI) blast+
qed

theorem sampling_threshold_never_increases_witness:
  "1 \<le> cl_decay_steps example_model \<and> cl_decay_steps example_model < 2 ^ 53 \<and>
   compute_sampling_threshold example_model (Some 850000) = Inr (Finite 0) \<and>
   (\<exists>r. compute_sampling_threshold example_model (Some 0) = Inr (Finite r) \<and>
        r = round64_real (1000 / 1001) \<and> 1 / 2 \<le> r \<and> r < 1 \<and> 0 \<le> r) \<and>
   inverse_sigmoid 1000 1000 < inverse_sigmoid 1000 0"
proof -
  have a: "1 \<le> cl_decay_steps example_model" "cl_decay_steps example_model < 2 ^ 53"
    and c: "real_of_int (cl_decay_steps example_model) = 1000"
    by (simp_all add: example_model_def)
  note inst = sampling_threshold_never_increases [OF a, unfolded c]
  have o: "(850::real) < overflow_threshold"
    by (simp add: overflow_threshold_def)
  from inst have "800 \<le> (850000::real) / 1000 \<and> (850000::real) / 1000 < overflow_threshold \<longrightarrow>
      compute_sampling_threshold example_model (Some 850000) = Inr (Finite 0)"
    by blast
  with o have z: "compute_sampling_threshold example_model (Some 850000) = Inr (Finite 0)"
    by simp
  from inst have s: "\<exists>r. compute_sampling_threshold example_model (Some 0) = Inr (Finite r) \<and>
      r = round64_real (1000 / (1000 + 1)) \<and> 1 / 2 \<le> r \<and> r < 1"
    by blast
  from inst have "(0::real) < 1000 \<longrightarrow> inverse_sigmoid 1000 1000 < inverse_sigmoid 1000 0"
    by blast
  with a z s show ?thesis by auto
qed

lemma compute_sampling_threshold_None: "compute_sampling_threshold m None = Inl TypeError"
  by (simp add: compute_sampling_threshold_def)

lemma threshold_at_start:
  assumes "cl_decay_steps m = 1000"
  shows "compute_sampling_threshold m (Some 0) = Inr (Finite (round64_real (1000 / 1001)))"
proof -
  have "round64 (0 / real_of_int (cl_decay_steps m)) = Finite 0"
    using overflow_threshold_pos by (simp add: round64_def round64_real_zero)
  from compute_sampling_threshold_float [OF _ _ this] threshold_value_zero [of 1000] assms
  show ?thesis by simp
qed

subsection \<open>The instance\<close>

lemmas example_defs =
  example_model_def example_encoder_def example_decoder_def example_cell_def
  example_linear_def example_inputs_def example_labels_def example_batch_def

lemmas step_defs =
  torch_view_strided_def view_compatible_def tensor.truncate_def

lemmas run_defs =
  forward_def encoder_def decoder_def decoder_start_def decoder_body_def
  Decoder_forward_def Encoder_forward_def initial_hidden_state_def torch_zeros_def
  type_as_def index0_def getitem_def torch_stack_def torch_view_def numel_def
  tensor_size_def compute_sampling_threshold_None threshold_at_start
  example_threshold_above_half example_threshold_doubled upt_rec Let_def

lemma example_init:
  "DCRNN_init (\<lambda>_. Inr example_cell) (\<lambda>_ _. Inr example_linear) [[1]] Inr example_kwargs =
     Inr example_model"
  by (simp add: DCRNN_init_def Encoder_init_def Decoder_init_def Seq2SeqAttrs_init_def
        py_int_def kw_get_def example_kwargs_def example_defs seq2seq_attrs.extend_def
        encoder_t.fields_def decoder_t.fields_def dcrnn.fields_def upt_rec)

lemma example_decoder_start: "decoder_start example_model (Some example_hidden) = Inr example_start"
  by (simp add: run_defs example_defs example_hidden_def example_start_def)

lemma example_threshold:
  "compute_sampling_threshold example_teacher (Some 0) =
     Inr (Finite (round64_real (1000 / 1001)))"
  by (simp add: threshold_at_start example_teacher_def example_model_def)

lemma example_training_step:
  "training_step example_model (\<lambda>_. 0) example_batch 0 =
     Inr (43 / 2, example_model\<lparr>param_grads := clip_grad_norm (param_grads example_model) 5\<rparr>)"
  by (simp add: training_step_def run_defs example_defs permute_1023_def slice_last_def step_defs
        masked_mae_loss_def unmasked_count_def masked_abs_errors_def)


subsection \<open>Construction\<close>

lemma Seq2SeqAttrs_init_size:
  "Seq2SeqAttrs_init adj kw = Inr a \<Longrightarrow> hidden_state_size a = num_nodes a * rnn_units a"
  by (auto simp: Seq2SeqAttrs_init_def split: sum.splits)

lemma Encoder_init_size:
  "Encoder_init mk adj kw = Inr enc \<Longrightarrow> hidden_state_size enc = num_nodes enc * rnn_units enc"
  by (auto simp: Encoder_init_def seq2seq_attrs.extend_def split: sum.splits
           dest: Seq2SeqAttrs_init_size)

lemma Decoder_init_size:
  "Decoder_init mk mk_linear adj kw = Inr dec \<Longrightarrow>
   hidden_state_size dec = num_nodes dec * rnn_units dec"
  by (auto simp: Decoder_init_def seq2seq_attrs.extend_def split: sum.splits
           dest: Seq2SeqAttrs_init_size)

lemma DCRNN_init_size:
  assumes "DCRNN_init mk mk_linear adj sc kw = Inr m"
  shows "hidden_state_size m = num_nodes m * rnn_units m \<and>
         hidden_state_size (encoder_model m) =
           num_nodes (encoder_model m) * rnn_units (encoder_model m) \<and>
         hidden_state_size (decoder_model m) =
           num_nodes (decoder_model m) * rnn_units (decoder_model m)"
proof -
  from assms obtain a enc dec where
    a: "Seq2SeqAttrs_init adj kw = Inr a" and
    e: "Encoder_init mk adj kw = Inr enc" and
    d: "Decoder_init mk mk_linear adj kw = Inr dec" and
    m: "m = seq2seq_attrs.extend (a\<lparr>cl_decay_steps := kw_get (kw_cl_decay_steps kw) 1000\<rparr>)
              (dcrnn.fields sc enc dec (kw_get (kw_use_curriculum_learning kw) False) True
                 (replicate (sum_list (map dcgru_nparams (enc_dcgru_layers enc)) + 2 +
                             sum_list (map dcgru_nparams (dec_dcgru_layers dec))) None))"
    by (auto simp: DCRNN_init_def split: sum.splits)
  from m have "hidden_state_size m = hidden_state_size a" "num_nodes m = num_nodes a"
    "rnn_units m = rnn_units a" "encoder_model m = enc" "decoder_model m = dec"
    by (simp_all add: seq2seq_attrs.extend_def dcrnn.fields_def)
  with Seq2SeqAttrs_init_size [OF a] Encoder_init_size [OF e] Decoder_init_size [OF d]
  show ?thesis by simp
qed

lemma training_step_frame:
  "training_step m u batch batch_idx = Inr (loss, m') \<Longrightarrow>
   m' = m\<lparr>param_grads := clip_grad_norm (param_grads m) 5\<rparr>"
  by (auto simp: training_step_def split: prod.splits sum.splits)

text \<open>
  Claim C4. Every instance a constructor returns, of \<^verbatim>\<open>Seq2SeqAttrs\<close>, \<^verbatim>\<open>Encoder\<close>,
  \<^verbatim>\<open>Decoder\<close> or \<^verbatim>\<open>DCRNN\<close> with its two sub-models, under any keyword options, has
  \<open>hidden_state_size = num_nodes * rnn_units\<close>. The training step, the one operation
  that changes the instance, changes the stored gradients only, so the equality stays.
\<close>

theorem hidden_state_size_is_nodes_times_units:
  "(\<forall>a. Seq2SeqAttrs_init adj kw = Inr a \<longrightarrow>
        hidden_state_size a = num_nodes a * rnn_units a) \<and>
   (\<forall>enc. Encoder_init mk adj kw = Inr enc \<longrightarrow>
        hidden_state_size enc = num_nodes enc * rnn_units enc) \<and>
   (\<forall>dec. Decoder_init mk mk_linear adj kw = Inr dec \<longrightarrow>
        hidden_state_size dec = num_nodes dec * rnn_units dec) \<and>
   (\<forall>m. DCRNN_init mk mk_linear adj sc kw = Inr m \<longrightarrow>
        hidden_state_size m = num_nodes m * rnn_units m \<and>
        hidden_state_size (encoder_model m) =
          num_nodes (encoder_model m) * rnn_units (encoder_model m) \<and>
        hidden_state_size (decoder_model m) =
          num_nodes (decoder_model m) * rnn_units (decoder_model m)) \<and>
   (\<forall>m u batch batch_idx loss m'.
        hidden_state_size m = num_nodes m * rnn_units m \<and>
        training_step m u batch batch_idx = Inr (loss, m') \<longrightarrow>
        (\<exists>g. m' = m\<lparr>param_grads := g\<rparr>) \<and>
        hidden_state_size m' = num_nodes m' * rnn_units m')"
proof (intro conjI allI impI)
  fix m :: dcrnn and u batch batch_idx loss m'
  assume a: "hidden_state_size m = num_nodes m * rnn_units m \<and>
             training_step m u batch batch_idx = Inr (loss, m')"
  then have f: "m' = m\<lparr>param_grads := clip_grad_norm (param_grads m) 5\<rparr>"
    by (auto dest: training_step_frame)
  then show "\<exists>g. m' = m\<lparr>param_grads := g\<rparr>" by blast
  from f a show "hidden_state_size m' = num_nodes m' * rnn_units m'" by simp
qed (auto dest: Seq2SeqAttrs_init_size Encoder_init_size Decoder_init_size DCRNN_init_size)

theorem hidden_state_size_is_nodes_times_units_witness:
  "DCRNN_init (\<lambda>_. Inr example_cell) (\<lambda>_ _. Inr example_linear) [[1]] Inr example_kwargs =
     Inr example_model \<and>
   hidden_state_size example_model = num_nodes example_model * rnn_units example_model \<and>
   hidden_state_size (encoder_model example_model) =
     num_nodes (encoder_model example_model) * rnn_units (encoder_model example_model) \<and>
   hidden_state_size (decoder_model example_model) =
     num_nodes (decoder_model example_model) * rnn_units (decoder_model example_model) \<and>
   training_step example_model (\<lambda>_. 0) example_batch 0 =
     Inr (43 / 2, example_model\<lparr>param_grads := clip_grad_norm (param_grads example_model) 5\<rparr>) \<and>
   hidden_state_size
     (example_model\<lparr>param_grads := clip_grad_norm (param_grads example_model) 5\<rparr>) =
   num_nodes (example_model\<lparr>param_grads := clip_grad_norm (param_grads example_model) 5\<rparr>) *
   rnn_units (example_model\<lparr>param_grads := clip_grad_norm (param_grads example_model) 5\<rparr>)"
proof -
  note inst = hidden_state_size_is_nodes_times_units [of "[[1]]" example_kwargs
      "\<lambda>_. Inr example_cell" "\<lambda>_ _. Inr example_linear" Inr]
  from inst example_init have c:
    "hidden_state_size example_model = num_nodes example_model * rnn_units example_model \<and>
     hidden_state_size (encoder_model example_model) =
       num_nodes (encoder_model example_model) * rnn_units (encoder_model example_model) \<and>
     hidden_state_size (decoder_model example_model) =
       num_nodes (decoder_model example_model) * rnn_units (decoder_model example_model)"
    by blast
  with inst example_training_step have
    "hidden_state_size
       (example_model\<lparr>param_grads := clip_grad_norm (param_grads example_model) 5\<rparr>) =
     num_nodes (example_model\<lparr>param_grads := clip_grad_norm (param_grads example_model) 5\<rparr>) *
     rnn_units (example_model\<lparr>param_grads := clip_grad_norm (param_grads example_model) 5\<rparr>)"
    by blast
  with c example_init example_training_step show ?thesis by blast
qed

subsection \<open>The initial hidden state of the Encoder\<close>

lemma initial_hidden_state_zero:
  assumes "0 \<le> num_rnn_layers enc" and "0 \<le> hidden_state_size enc"
  shows "initial_hidden_state enc inputs batch =
           Inr (zero_hidden_state enc batch (dtype inputs))"
  using assms
  by (simp add: initial_hidden_state_def torch_zeros_def type_as_def zero_hidden_state_def)

text \<open>
  Claim C2. For a configuration with a number of layers and a hidden state size that
  are not negative, and a step input of two dimensions, \<^verbatim>\<open>Encoder.forward\<close> without a
  hidden state returns what it returns with the all-zero hidden state of shape
  \<open>(num_rnn_layers, batch, hidden_state_size)\<close> in the numeric type of the input.
\<close>

theorem encoder_forward_default_hidden_state:
  assumes "0 \<le> num_rnn_layers enc" and "0 \<le> hidden_state_size enc"
      and "shape inputs = [batch, features]"
  shows "Encoder_forward enc inputs None =
         Encoder_forward enc inputs (Some (zero_hidden_state enc batch (dtype inputs)))"
  using assms(3) initial_hidden_state_zero [OF assms(1,2), of inputs batch]
  by (simp add: Encoder_forward_def)

theorem encoder_forward_default_hidden_state_witness:
  "0 \<le> num_rnn_layers example_encoder \<and> 0 \<le> hidden_state_size example_encoder \<and>
   shape \<lparr>dtype = Float64, shape = [2, 1], elems = [1, 2]\<rparr> = [2, 1] \<and>
   Encoder_forward example_encoder \<lparr>dtype = Float64, shape = [2, 1], elems = [1, 2]\<rparr> None =
   Encoder_forward example_encoder \<lparr>dtype = Float64, shape = [2, 1], elems = [1, 2]\<rparr>
     (Some (zero_hidden_state example_encoder 2 Float64)) \<and>
   zero_hidden_state example_encoder 2 Float64 =
     \<lparr>dtype = Float64, shape = [1, 2, 1], elems = [0, 0]\<rparr> \<and>
   Encoder_forward example_encoder \<lparr>dtype = Float64, shape = [2, 1], elems = [1, 2]\<rparr> None =
     Inr (\<lparr>dtype = Float64, shape = [2, 1], elems = [4, 4]\<rparr>,
          \<lparr>dtype = Float64, shape = [1, 2, 1], elems = [4, 4]\<rparr>)"
proof -
  have a: "0 \<le> num_rnn_layers example_encoder" "0 \<le> hidden_state_size example_encoder"
    by (simp_all add: example_encoder_def)
  have s: "shape \<lparr>dtype = Float64, shape = [2, 1], elems = [1, 2]\<rparr> = [2, 1]"
    by simp
  have z: "zero_hidden_state example_encoder 2 Float64 =
             \<lparr>dtype = Float64, shape = [1, 2, 1], elems = [0, 0]\<rparr>"
    by (simp add: zero_hidden_state_def example_encoder_def numeral_2_eq_2)
  have v: "Encoder_forward example_encoder
             \<lparr>dtype = Float64, shape = [2, 1], elems = [1, 2]\<rparr> None =
           Inr (\<lparr>dtype = Float64, shape = [2, 1], elems = [4, 4]\<rparr>,
                \<lparr>dtype = Float64, shape = [1, 2, 1], elems = [4, 4]\<rparr>)"
    by (simp add: run_defs example_defs numeral_2_eq_2)
  from encoder_forward_default_hidden_state [OF a s] a s z v show ?thesis
    by simp
qed

subsection \<open>The loop of the decoder\<close>

lemma decoder_loop_append:
  "decoder_loop m u labels bs (xs @ ys) st =
     (case decoder_loop m u labels bs xs st of
        Inl e \<Rightarrow> Inl e
      | Inr st' \<Rightarrow> decoder_loop m u labels bs ys st')"
  by (induction xs arbitrary: st) (auto split: sum.splits)

lemma decoder_loop_snoc:
  "decoder_loop m u labels bs [0..<Suc t] st =
     (case decoder_loop m u labels bs [0..<t] st of
        Inl e \<Rightarrow> Inl e
      | Inr st' \<Rightarrow> decoder_body m u labels bs t st')"
  by (simp add: decoder_loop_append split: sum.splits)

lemma decoder_loop_prefix:
  assumes "decoder_loop m u labels bs [0..<n] st0 = Inr stn" and "t \<le> n"
  shows "\<exists>st. decoder_loop m u labels bs [0..<t] st0 = Inr st \<and>
              decoder_loop m u labels bs [t..<n] st = Inr stn"
proof -
  have "[0..<n] = [0..<t] @ [t..<n]"
    using assms(2) by (metis le_add_diff_inverse upt_add_eq_append zero_le)
  with assms(1) show ?thesis
    by (auto simp: decoder_loop_append split: sum.splits)
qed

lemma decoder_start_outputs: "decoder_start m h = Inr st0 \<Longrightarrow> outputs st0 = [] \<and> draws st0 = 0"
  by (auto simp: decoder_start_def split: option.splits sum.splits)

lemma decoder_body_outputs:
  assumes "decoder_body m u labels bs t st = Inr st'"
  shows "\<exists>out hid.
           Decoder_forward (decoder_model m) (decoder_input st)
             (Some (decoder_hidden_state st)) = Inr (out, hid) \<and>
           outputs st' = outputs st @ [out]"
  using assms
  by (auto simp: decoder_body_def Let_def split: sum.splits if_splits prod.splits)

lemma decoder_body_own_output:
  assumes "decoder_body m u labels bs t st = Inr st'"
      and "\<not> use_curriculum_learning m"
  shows "\<exists>out hid.
           Decoder_forward (decoder_model m) (decoder_input st)
             (Some (decoder_hidden_state st)) = Inr (out, hid) \<and>
           decoder_input st' = out"
  using assms
  by (auto simp: decoder_body_def Let_def split: sum.splits if_splits prod.splits)

lemma decoder_loop_outputs:
  "decoder_loop m u labels bs ts st = Inr st' \<Longrightarrow>
     length (outputs st') = length (outputs st) + length ts \<and>
     take (length (outputs st)) (outputs st') = outputs st"
proof (induction ts arbitrary: st)
  case Nil
  then show ?case by simp
next
  case (Cons t ts)
  from Cons.prems obtain st1 where
    b: "decoder_body m u labels bs t st = Inr st1" and
    l: "decoder_loop m u labels bs ts st1 = Inr st'"
    by (auto split: sum.splits)
  from decoder_body_outputs [OF b] obtain out where o: "outputs st1 = outputs st @ [out]"
    by blast
  from Cons.IH [OF l] have
    "length (outputs st') = length (outputs st1) + length ts"
    "take (length (outputs st1)) (outputs st') = outputs st1"
    by simp_all
  with o show ?case
    by (simp, metis append_eq_conv_conj take_take min.absorb1 le_add1 length_append)
qed

lemma decoder_loop_nth_output:
  assumes "decoder_loop m u labels bs [0..<n] st0 = Inr stn" and "t < n"
  shows "\<exists>st out hid.
           decoder_loop m u labels bs [0..<t] st0 = Inr st \<and>
           Decoder_forward (decoder_model m) (decoder_input st)
             (Some (decoder_hidden_state st)) = Inr (out, hid) \<and>
           outputs stn ! (length (outputs st0) + t) = out"
proof -
  from decoder_loop_prefix [OF assms(1), of "Suc t"] assms(2) obtain st1 where
    p1: "decoder_loop m u labels bs [0..<Suc t] st0 = Inr st1" and
    r1: "decoder_loop m u labels bs [Suc t..<n] st1 = Inr stn"
    by auto
  from p1 [unfolded decoder_loop_snoc] obtain st where
    p: "decoder_loop m u labels bs [0..<t] st0 = Inr st" and
    b: "decoder_body m u labels bs t st = Inr st1"
    by (auto split: sum.splits)
  from decoder_body_outputs [OF b] obtain out hid where
    f: "Decoder_forward (decoder_model m) (decoder_input st)
          (Some (decoder_hidden_state st)) = Inr (out, hid)" and
    o: "outputs st1 = outputs st @ [out]"
    by blast
  from decoder_loop_outputs [OF p] have len: "length (outputs st) = length (outputs st0) + t"
    by simp
  from decoder_loop_outputs [OF r1] have "take (length (outputs st1)) (outputs stn) = outputs st1"
    by simp
  then have "outputs stn ! (length (outputs st0) + t) = outputs st1 ! (length (outputs st0) + t)"
    using o len by (metis length_append_singleton lessI nth_take)
  with o len have "outputs stn ! (length (outputs st0) + t) = out"
    by (simp add: nth_append)
  with p f show ?thesis by blast
qed

text \<open>
  Claim C1. Without curriculum learning, for every step \<open>t\<close> with \<open>t + 1 < horizon\<close>,
  the decoder input of step \<open>t + 1\<close>, which is the input in the state after the steps
  \<open>0, \<dots>, t\<close>, is the output the Decoder returned at step \<open>t\<close>, whatever the labels and
  the mode are.
\<close>

theorem decoder_input_is_own_output:
  assumes "\<not> use_curriculum_learning m"
      and "decoder_start m h = Inr st0"
      and "Suc t < nat (horizon (decoder_model m))"
      and "decoder_loop m u labels bs [0..<Suc t] st0 = Inr st1"
  shows "\<exists>st out hid.
           decoder_loop m u labels bs [0..<t] st0 = Inr st \<and>
           Decoder_forward (decoder_model m) (decoder_input st)
             (Some (decoder_hidden_state st)) = Inr (out, hid) \<and>
           decoder_input st1 = out"
proof -
  from assms(4) [unfolded decoder_loop_snoc] obtain st where
    pre: "decoder_loop m u labels bs [0..<t] st0 = Inr st" and
    body: "decoder_body m u labels bs t st = Inr st1"
    by (auto split: sum.splits)
  from decoder_body_own_output [OF body assms(1)] pre show ?thesis
    by blast
qed

theorem decoder_input_is_own_output_witness:
  "\<not> use_curriculum_learning example_model \<and>
   decoder_start example_model (Some example_hidden) = Inr example_start \<and>
   Suc 0 < nat (horizon (decoder_model example_model)) \<and>
   (\<exists>st1. decoder_loop example_model (\<lambda>_. 0) (Some example_labels) (Some 0) [0..<Suc 0]
            example_start = Inr st1 \<and>
      (\<exists>st out hid.
         decoder_loop example_model (\<lambda>_. 0) (Some example_labels) (Some 0) [0..<0]
           example_start = Inr st \<and>
         Decoder_forward (decoder_model example_model) (decoder_input st)
           (Some (decoder_hidden_state st)) = Inr (out, hid) \<and>
         decoder_input st1 = out))"
proof -
  have c: "\<not> use_curriculum_learning example_model"
    by (simp add: example_model_def)
  have h: "Suc 0 < nat (horizon (decoder_model example_model))"
    by (simp add: example_model_def example_decoder_def)
  obtain st1 where l: "decoder_loop example_model (\<lambda>_. 0) (Some example_labels) (Some 0)
      [0..<Suc 0] example_start = Inr st1"
    by (simp add: run_defs example_defs example_hidden_def example_start_def)
  from decoder_input_is_own_output [OF c example_decoder_start h l] c h l example_decoder_start
  show ?thesis by blast
qed

text \<open>
  Claim C9. Whenever \<^verbatim>\<open>DCRNN.decoder\<close> returns, the entry \<open>t\<close> of the collected outputs
  is the output the Decoder returned at step \<open>t\<close>, with or without a substitution of the
  label at that step: the substitution changes the next input only.
\<close>

theorem collected_output_is_decoder_output:
  assumes "decoder m u h labels bs = Inr res"
      and "t < nat (horizon (decoder_model m))"
  shows "\<exists>st0 stn st out hid.
           decoder_start m h = Inr st0 \<and>
           decoder_loop m u labels bs [0..<nat (horizon (decoder_model m))] st0 = Inr stn \<and>
           torch_stack (outputs stn) = Inr res \<and>
           decoder_loop m u labels bs [0..<t] st0 = Inr st \<and>
           Decoder_forward (decoder_model m) (decoder_input st)
             (Some (decoder_hidden_state st)) = Inr (out, hid) \<and>
           outputs stn ! t = out"
proof -
  from assms(1) obtain st0 stn where
    s: "decoder_start m h = Inr st0" and
    l: "decoder_loop m u labels bs [0..<nat (horizon (decoder_model m))] st0 = Inr stn" and
    r: "torch_stack (outputs stn) = Inr res"
    by (auto simp: decoder_def split: sum.splits)
  from decoder_loop_nth_output [OF l assms(2)] decoder_start_outputs [OF s] s l r
  show ?thesis by auto
qed

theorem collected_output_is_decoder_output_witness:
  "decoder example_teacher (\<lambda>_. 1 / 2) (Some example_hidden) (Some example_labels) (Some 0) =
     Inr \<lparr>dtype = Float32, shape = [2, 1, 1], elems = [12, 20]\<rparr> \<and>
   1 < nat (horizon (decoder_model example_teacher)) \<and>
   (\<exists>st0 stn st out hid.
      decoder_start example_teacher (Some example_hidden) = Inr st0 \<and>
      decoder_loop example_teacher (\<lambda>_. 1 / 2) (Some example_labels) (Some 0)
        [0..<nat (horizon (decoder_model example_teacher))] st0 = Inr stn \<and>
      torch_stack (outputs stn) = Inr \<lparr>dtype = Float32, shape = [2, 1, 1], elems = [12, 20]\<rparr> \<and>
      decoder_loop example_teacher (\<lambda>_. 1 / 2) (Some example_labels) (Some 0) [0..<1] st0 =
        Inr st \<and>
      Decoder_forward (decoder_model example_teacher) (decoder_input st)
        (Some (decoder_hidden_state st)) = Inr (out, hid) \<and>
      outputs stn ! 1 = out)"
proof -
  have d: "decoder example_teacher (\<lambda>_. 1 / 2) (Some example_hidden) (Some example_labels)
             (Some 0) = Inr \<lparr>dtype = Float32, shape = [2, 1, 1], elems = [12, 20]\<rparr>"
    by (simp add: run_defs example_defs example_hidden_def example_teacher_def)
  have h: "1 < nat (horizon (decoder_model example_teacher))"
    by (simp add: example_teacher_def example_model_def example_decoder_def)
  from collected_output_is_decoder_output [OF d h] d h show ?thesis
    by blast
qed

subsection \<open>Inference\<close>

lemma decoder_body_eval:
  "\<not> training m \<Longrightarrow>
   decoder_body m u labels bs t st = decoder_body m u' labels' bs' t st"
  by (simp add: decoder_body_def cong: sum.case_cong)

lemma decoder_loop_eval:
  "\<not> training m \<Longrightarrow>
   decoder_loop m u labels bs ts st = decoder_loop m u' labels' bs' ts st"
proof (induction ts arbitrary: st)
  case Nil
  then show ?case by simp
next
  case (Cons t ts)
  then show ?case
    using decoder_body_eval [of m u labels bs t st u' labels' bs']
    by (simp split: sum.splits)
qed

text \<open>
  Claim C8. At inference, that is when the model is not in training mode, two runs of
  \<^verbatim>\<open>forward\<close> on the same input sequence give the same result whatever the labels, the
  number of batches seen and the values of the random generator are.
\<close>

theorem forward_ignores_labels_at_inference:
  assumes "\<not> training m"
  shows "forward m u inputs labels batches_seen = forward m u' inputs labels' batches_seen'"
proof -
  have loop: "decoder_loop m u labels batches_seen ts st =
              decoder_loop m u' labels' batches_seen' ts st" for ts st
    by (rule decoder_loop_eval [OF assms])
  have "decoder m u h labels batches_seen = decoder m u' h labels' batches_seen'" for h
    by (simp add: decoder_def loop cong: sum.case_cong)
  then show ?thesis
    by (simp add: forward_def cong: sum.case_cong)
qed

theorem forward_ignores_labels_at_inference_witness:
  "\<not> training (example_model\<lparr>training := False, use_curriculum_learning := True\<rparr>) \<and>
   forward (example_model\<lparr>training := False, use_curriculum_learning := True\<rparr>)
     (\<lambda>_. 1 / 2) example_inputs (Some example_labels) (Some 0) =
   forward (example_model\<lparr>training := False, use_curriculum_learning := True\<rparr>)
     (\<lambda>_. 0) example_inputs None None \<and>
   forward (example_model\<lparr>training := False, use_curriculum_learning := True\<rparr>)
     (\<lambda>_. 0) example_inputs None None =
   Inr \<lparr>dtype = Float32, shape = [2, 1, 1], elems = [12, 38]\<rparr>"
proof -
  have t: "\<not> training (example_model\<lparr>training := False, use_curriculum_learning := True\<rparr>)"
    by simp
  have v: "forward (example_model\<lparr>training := False, use_curriculum_learning := True\<rparr>)
             (\<lambda>_. 0) example_inputs None None =
           Inr \<lparr>dtype = Float32, shape = [2, 1, 1], elems = [12, 38]\<rparr>"
    by (simp add: run_defs example_defs)
  from forward_ignores_labels_at_inference [OF t, of "\<lambda>_. 1 / 2" example_inputs
      "Some example_labels" "Some 0" "\<lambda>_. 0" None None] t v
  show ?thesis by simp
qed

subsection \<open>Curriculum learning without its signals\<close>

lemma decoder_body_draws:
  "training m \<Longrightarrow> use_curriculum_learning m \<Longrightarrow>
   decoder_body m u labels bs t st = Inr st' \<Longrightarrow> draws st' = Suc (draws st)"
  by (auto simp: decoder_body_def Let_def split: sum.splits if_splits prod.splits)

lemma decoder_loop_draws:
  "training m \<Longrightarrow> use_curriculum_learning m \<Longrightarrow>
   decoder_loop m u labels bs ts st = Inr st' \<Longrightarrow> draws st' = draws st + length ts"
proof (induction ts arbitrary: st)
  case Nil
  then show ?case by simp
next
  case (Cons t ts)
  from Cons.prems(3) obtain st1 where
    b: "decoder_body m u labels bs t st = Inr st1" and
    l: "decoder_loop m u labels bs ts st1 = Inr st'"
    by (auto split: sum.splits)
  from decoder_body_draws [OF Cons.prems(1,2) b] Cons.IH [OF Cons.prems(1,2) l]
  show ?case by simp
qed

lemma decoder_body_no_batches_seen:
  assumes "training m" and "use_curriculum_learning m"
      and "Decoder_forward (decoder_model m) (decoder_input st)
             (Some (decoder_hidden_state st)) = Inr (out, hid)"
  shows "decoder_body m u labels None t st = Inl TypeError"
  using assms by (simp add: decoder_body_def compute_sampling_threshold_def)

lemma decoder_body_no_labels:
  assumes "training m" and "use_curriculum_learning m"
      and "Decoder_forward (decoder_model m) (decoder_input st)
             (Some (decoder_hidden_state st)) = Inr (out, hid)"
      and "compute_sampling_threshold m (Some b) = Inr th"
      and "less_fnum (u (draws st)) th"
  shows "decoder_body m u None (Some b) t st = Inl TypeError"
  using assms by (simp add: decoder_body_def getitem_def)

lemma decoder_body_fails_no_batches_seen:
  assumes "training m" and "use_curriculum_learning m"
  shows "\<exists>e. decoder_body m u labels None t st = Inl e"
  using assms
  by (cases "Decoder_forward (decoder_model m) (decoder_input st) (Some (decoder_hidden_state st))")
     (auto simp: decoder_body_def compute_sampling_threshold_def)

lemma decoder_body_fails_no_labels:
  assumes "training m" and "use_curriculum_learning m"
      and "compute_sampling_threshold m (Some b) = Inr th"
      and "less_fnum (u (draws st)) th"
  shows "\<exists>e. decoder_body m u None (Some b) t st = Inl e"
  using assms
  by (cases "Decoder_forward (decoder_model m) (decoder_input st) (Some (decoder_hidden_state st))")
     (auto simp: decoder_body_def getitem_def)

lemma decoder_fails_no_batches_seen:
  assumes "training m" and "use_curriculum_learning m"
  shows "\<exists>e. decoder m u h labels None = Inl e"
proof (cases "decoder_start m h")
  case (Inl e)
  then show ?thesis by (simp add: decoder_def)
next
  case (Inr st0)
  show ?thesis
  proof (cases "nat (horizon (decoder_model m))")
    case 0
    with Inr decoder_start_outputs [OF Inr] show ?thesis
      by (simp add: decoder_def torch_stack_def)
  next
    case (Suc n)
    from decoder_body_fails_no_batches_seen [OF assms, of u labels 0 st0]
    obtain e where "decoder_body m u labels None 0 st0 = Inl e" by blast
    with Inr Suc show ?thesis
      by (simp add: decoder_def upt_rec [of 0])
  qed
qed

lemma decoder_fails_no_labels:
  assumes "training m" and "use_curriculum_learning m"
      and "compute_sampling_threshold m (Some b) = Inr th"
      and "k < nat (horizon (decoder_model m))"
      and "less_fnum (u k) th"
  shows "\<exists>e. decoder m u h None (Some b) = Inl e"
proof (cases "decoder_start m h")
  case (Inl e)
  then show ?thesis by (simp add: decoder_def)
next
  case (Inr st0)
  let ?n = "nat (horizon (decoder_model m))"
  have split: "[0..<?n] = [0..<k] @ k # [Suc k..<?n]"
    using assms(4) by (metis upt_conv_Cons upt_add_eq_append le_add_diff_inverse less_imp_le zero_le)
  show ?thesis
  proof (cases "decoder_loop m u None (Some b) [0..<k] st0")
    case (Inl e)
    with Inr split show ?thesis
      by (simp add: decoder_def decoder_loop_append)
  next
    case st: (Inr st)
    from decoder_loop_draws [OF assms(1,2) st] decoder_start_outputs [OF Inr]
    have "draws st = k" by simp
    with decoder_body_fails_no_labels [OF assms(1,2,3), of u st k] assms(5)
    obtain e where "decoder_body m u None (Some b) k st = Inl e" by blast
    with Inr split st show ?thesis
      by (simp add: decoder_def decoder_loop_append)
  qed
qed

lemma forward_fails_if_decoder_fails:
  assumes "\<And>h. \<exists>e. decoder m u h labels bs = Inl e"
  shows "\<exists>e. forward m u inputs labels bs = Inl e"
proof (cases "encoder m inputs")
  case (Inl e)
  then show ?thesis by (simp add: forward_def)
next
  case (Inr h)
  with assms [of h] show ?thesis by (auto simp: forward_def)
qed

text \<open>
  Claim C10. In training mode with curriculum learning enabled, the decoder and hence
  \<^verbatim>\<open>forward\<close> raise when \<open>batches_seen\<close> is \<^verbatim>\<open>None\<close>: the step whose Decoder call
  returns raises \<^verbatim>\<open>TypeError\<close> in the threshold computation. With labels \<^verbatim>\<open>None\<close>
  they raise as soon as one draw of the run is below the threshold: the step raises
  \<^verbatim>\<open>TypeError\<close> when indexing the labels. No call returns the own prediction instead.
\<close>

theorem curriculum_learning_needs_labels_and_batches_seen:
  assumes "training m" and "use_curriculum_learning m"
  shows "(\<exists>e. decoder m u h labels None = Inl e) \<and>
         (\<exists>e. forward m u inputs labels None = Inl e) \<and>
         (\<forall>st out hid.
            Decoder_forward (decoder_model m) (decoder_input st)
              (Some (decoder_hidden_state st)) = Inr (out, hid) \<longrightarrow>
            decoder_body m u labels None t st = Inl TypeError) \<and>
         (\<forall>b th k.
            compute_sampling_threshold m (Some b) = Inr th \<and>
            k < nat (horizon (decoder_model m)) \<and> less_fnum (u k) th \<longrightarrow>
            (\<exists>e. decoder m u h None (Some b) = Inl e) \<and>
            (\<exists>e. forward m u inputs None (Some b) = Inl e)) \<and>
         (\<forall>b th st out hid.
            Decoder_forward (decoder_model m) (decoder_input st)
              (Some (decoder_hidden_state st)) = Inr (out, hid) \<and>
            compute_sampling_threshold m (Some b) = Inr th \<and>
            less_fnum (u (draws st)) th \<longrightarrow>
            decoder_body m u None (Some b) t st = Inl TypeError)"
proof (intro conjI allI impI)
  show "\<exists>e. decoder m u h labels None = Inl e"
    by (rule decoder_fails_no_batches_seen [OF assms])
  show "\<exists>e. forward m u inputs labels None = Inl e"
    by (rule forward_fails_if_decoder_fails) (rule decoder_fails_no_batches_seen [OF assms])
next
  fix st :: decoder_state and out hid
  assume "Decoder_forward (decoder_model m) (decoder_input st)
            (Some (decoder_hidden_state st)) = Inr (out, hid)"
  then show "decoder_body m u labels None t st = Inl TypeError"
    by (rule decoder_body_no_batches_seen [OF assms])
next
  fix b th k
  assume a: "compute_sampling_threshold m (Some b) = Inr th \<and>
             k < nat (horizon (decoder_model m)) \<and> less_fnum (u k) th"
  then have d: "\<exists>e. decoder m u h' None (Some b) = Inl e" for h'
    using decoder_fails_no_labels [OF assms, of b th k u h'] by blast
  from d show "\<exists>e. decoder m u h None (Some b) = Inl e" .
  from d show "\<exists>e. forward m u inputs None (Some b) = Inl e"
    by (rule forward_fails_if_decoder_fails)
next
  fix b th and st :: decoder_state and out hid
  assume "Decoder_forward (decoder_model m) (decoder_input st)
            (Some (decoder_hidden_state st)) = Inr (out, hid) \<and>
          compute_sampling_threshold m (Some b) = Inr th \<and>
          less_fnum (u (draws st)) th"
  then show "decoder_body m u None (Some b) t st = Inl TypeError"
    using decoder_body_no_labels [OF assms] by blast
qed

theorem curriculum_learning_needs_labels_and_batches_seen_witness:
  "training example_teacher \<and> use_curriculum_learning example_teacher \<and>
   decoder example_teacher (\<lambda>_. 1 / 2) (Some example_hidden) (Some example_labels) None =
     Inl TypeError \<and>
   forward example_teacher (\<lambda>_. 1 / 2) example_inputs (Some example_labels) None =
     Inl TypeError \<and>
   compute_sampling_threshold example_teacher (Some 0) =
     Inr (Finite (round64_real (1000 / 1001))) \<and>
   decoder example_teacher (\<lambda>_. 1 / 2) (Some example_hidden) None (Some 0) = Inl TypeError \<and>
   forward example_teacher (\<lambda>_. 1 / 2) example_inputs None (Some 0) = Inl TypeError \<and>
   (\<exists>e. decoder example_teacher (\<lambda>_. 1 / 2) (Some example_hidden) None (Some 0) = Inl e)"
proof -
  have t: "training example_teacher" and c: "use_curriculum_learning example_teacher"
    by (simp_all add: example_teacher_def example_model_def)
  have v1: "decoder example_teacher (\<lambda>_. 1 / 2) (Some example_hidden) (Some example_labels)
              None = Inl TypeError"
    and v2: "forward example_teacher (\<lambda>_. 1 / 2) example_inputs (Some example_labels) None =
              Inl TypeError"
    and v3: "decoder example_teacher (\<lambda>_. 1 / 2) (Some example_hidden) None (Some 0) =
              Inl TypeError"
    and v4: "forward example_teacher (\<lambda>_. 1 / 2) example_inputs None (Some 0) = Inl TypeError"
    by (simp_all add: run_defs example_defs example_hidden_def example_teacher_def)
  have k: "0 < nat (horizon (decoder_model example_teacher))"
    by (simp add: example_teacher_def example_model_def example_decoder_def)
  have l: "less_fnum ((\<lambda>_. 1 / 2) (0::nat)) (Finite (round64_real (1000 / 1001)))"
    by (simp add: example_threshold_doubled)
  from curriculum_learning_needs_labels_and_batches_seen [OF t c, of "\<lambda>_. 1 / 2"
      "Some example_hidden" None example_inputs 0] example_threshold k l
  have "\<exists>e. decoder example_teacher (\<lambda>_. 1 / 2) (Some example_hidden) None (Some 0) = Inl e"
    by blast
  with t c v1 v2 v3 v4 example_threshold show ?thesis by simp
qed

subsection \<open>Step counts\<close>

lemma torch_stack_shape:
  "torch_stack ts = Inr r \<Longrightarrow> ts \<noteq> [] \<and> shape r = length ts # shape (hd ts)"
  by (auto simp: torch_stack_def split: list.splits if_splits)

lemma encoder_loop_steps:
  assumes "length xs = length ts" and "\<forall>i<length ts. index0 inputs (ts ! i) = Inr (xs ! i)"
  shows "encoder_loop m inputs ts h = encoder_steps (encoder_model m) xs h"
  using assms
proof (induction ts arbitrary: xs h)
  case Nil
  then show ?case by simp
next
  case (Cons t ts)
  then obtain x xs' where xs: "xs = x # xs'" by (cases xs) auto
  with Cons.prems have h0: "index0 inputs t = Inr x" by auto
  from Cons.prems xs have "\<forall>i<length ts. index0 inputs (ts ! i) = Inr (xs' ! i)" by auto
  with Cons.IH [of xs'] Cons.prems xs
  have "encoder_loop m inputs ts h' = encoder_steps (encoder_model m) xs' h'" for h'
    by simp
  with h0 xs show ?case by (simp cong: sum.case_cong split: prod.splits)
qed

lemma encoder_loop_reads:
  "encoder_loop m inputs ts h = Inr r \<Longrightarrow>
     \<exists>xs. length xs = length ts \<and> (\<forall>i<length ts. index0 inputs (ts ! i) = Inr (xs ! i))"
proof (induction ts arbitrary: h)
  case Nil
  then show ?case by simp
next
  case (Cons t ts)
  from Cons.prems obtain x h' where x: "index0 inputs t = Inr x"
    and l: "encoder_loop m inputs ts (Some h') = Inr r"
    by (auto split: sum.splits prod.splits)
  from Cons.IH [OF l] obtain xs where
    "length xs = length ts" "\<forall>i<length ts. index0 inputs (ts ! i) = Inr (xs ! i)"
    by blast
  with x have "length (x # xs) = length (t # ts) \<and>
               (\<forall>i<length (t # ts). index0 inputs ((t # ts) ! i) = Inr ((x # xs) ! i))"
    by (auto simp: nth_Cons split: nat.splits)
  then show ?case by blast
qed

lemma index0_shape:
  "shape h = n # rest \<Longrightarrow> i < n \<Longrightarrow> \<exists>r. index0 h i = Inr r \<and> shape r = rest"
  by (simp add: index0_def)

lemma run_layers_ok:
  assumes "\<forall>l\<in>set ls. \<forall>x hh. shape hh = s \<longrightarrow>
             (\<exists>r. dcgru_forward l x hh = Inr r \<and> shape r = s)"
      and "shape h = n # s" and "k + length ls \<le> n"
      and "\<forall>t\<in>set acc. shape t = s"
  shows "\<exists>out hs. run_layers ls k (Some h) x acc = Inr (out, hs) \<and>
           (\<forall>t\<in>set hs. shape t = s) \<and> length hs = length acc + length ls \<and>
           (ls \<noteq> [] \<longrightarrow> shape out = s)"
  using assms
proof (induction ls arbitrary: k x acc)
  case Nil
  then show ?case by simp
next
  case (Cons l ls)
  from Cons.prems(3) have "k < n" by simp
  with index0_shape [OF Cons.prems(2)] obtain hh where
    hh: "index0 h k = Inr hh" "shape hh = s" by blast
  from Cons.prems(1) have "\<forall>x hh. shape hh = s \<longrightarrow>
      (\<exists>r. dcgru_forward l x hh = Inr r \<and> shape r = s)"
    by simp
  with hh(2) obtain r where r: "dcgru_forward l x hh = Inr r" "shape r = s"
    by blast
  have "\<exists>out hs. run_layers ls (Suc k) (Some h) r (acc @ [r]) = Inr (out, hs) \<and>
           (\<forall>t\<in>set hs. shape t = s) \<and> length hs = length (acc @ [r]) + length ls \<and>
           (ls \<noteq> [] \<longrightarrow> shape out = s)"
    using Cons.prems r by (intro Cons.IH) auto
  then obtain out hs where
    o: "run_layers ls (Suc k) (Some h) r (acc @ [r]) = Inr (out, hs)"
       "\<forall>t\<in>set hs. shape t = s" "length hs = length (acc @ [r]) + length ls"
       "ls \<noteq> [] \<longrightarrow> shape out = s"
    by blast
  have "shape out = s"
  proof (cases ls)
    case Nil
    with o(1) r(2) show ?thesis by simp
  next
    case (Cons a as)
    with o(4) show ?thesis by simp
  qed
  with hh r o show ?case
    by (simp add: getitem_def)
qed

lemma torch_stack_ok:
  assumes "ts \<noteq> []" and "\<forall>t\<in>set ts. shape t = s"
  shows "\<exists>r. torch_stack ts = Inr r \<and> shape r = length ts # s"
  using assms by (cases ts) (auto simp: torch_stack_def list_all_iff)

lemma torch_view_rows:
  assumes "0 < k" and "numel t mod nat k = 0"
  shows "torch_view t [- 1, k] = Inr (t\<lparr>shape := [numel t div nat k, nat k]\<rparr>)"
  using assms by (auto simp: torch_view_def Let_def)

lemma Decoder_forward_ok:
  assumes "well_shaped_decoder m h0 B"
      and "shape hid = shape h0"
  shows "\<exists>out h'. Decoder_forward (decoder_model m) x (Some hid) = Inr (out, h') \<and>
           shape out = [B, nat (num_nodes (decoder_model m)) * nat (output_dim (decoder_model m))] \<and>
           shape h' = shape h0"
proof -
  let ?dec = "decoder_model m"
  let ?N = "nat (num_nodes ?dec)" and ?U = "nat (rnn_units ?dec)" and ?D = "nat (output_dim ?dec)"
  let ?L = "length (dec_dcgru_layers ?dec)"
  from assms(1) have
    pos: "0 < num_nodes ?dec" "0 < rnn_units ?dec" "0 < output_dim ?dec" "0 < ?L" and
    sh: "shape h0 = [?L, B, ?N * ?U]" and
    cells: "\<forall>l\<in>set (dec_dcgru_layers ?dec). \<forall>x hh. shape hh = [B, ?N * ?U] \<longrightarrow>
              (\<exists>r. dcgru_forward l x hh = Inr r \<and> shape r = [B, ?N * ?U])" and
    proj: "\<forall>x. shape x = [B * ?N, ?U] \<longrightarrow>
              (\<exists>r. linear_forward (projection_layer ?dec) x = Inr r \<and> shape r = [B * ?N, ?D])"
    by (simp_all add: well_shaped_decoder_def Let_def)
  from assms(2) sh have shid: "shape hid = ?L # [B, ?N * ?U]" by simp
  from run_layers_ok [OF cells shid, of 0 "[]" x] pos(4) obtain out hs where
    rl: "run_layers (dec_dcgru_layers ?dec) 0 (Some hid) x [] = Inr (out, hs)" and
    hs: "\<forall>t\<in>set hs. shape t = [B, ?N * ?U]" "length hs = ?L" and
    out: "shape out = [B, ?N * ?U]"
    by auto
  have n1: "numel out = (B * ?N) * ?U"
    using out by (simp add: numel_def)
  from pos(2) have v1: "torch_view out [- 1, rnn_units ?dec] =
      Inr (out\<lparr>shape := [B * ?N, ?U]\<rparr>)"
    by (subst torch_view_rows) (simp_all add: n1)
  have "shape (out\<lparr>shape := [B * ?N, ?U]\<rparr>) = [B * ?N, ?U]" by simp
  with proj obtain pr where
    pr: "linear_forward (projection_layer ?dec) (out\<lparr>shape := [B * ?N, ?U]\<rparr>) = Inr pr"
        "shape pr = [B * ?N, ?D]"
    by blast
  have k: "0 < num_nodes ?dec * output_dim ?dec"
        "nat (num_nodes ?dec * output_dim ?dec) = ?N * ?D"
    using pos by (simp_all add: nat_mult_distrib)
  have n2: "numel pr = B * (?N * ?D)"
    using pr(2) by (simp add: numel_def)
  from pos have nd: "0 < ?N * ?D" by simp
  have v2: "torch_view pr [- 1, num_nodes ?dec * output_dim ?dec] =
      Inr (pr\<lparr>shape := [B, ?N * ?D]\<rparr>)"
    using k(1) nd by (subst torch_view_rows) (simp_all add: n2 k(2))
  from hs pos(4) have "hs \<noteq> []" by auto
  from torch_stack_ok [OF this hs(1)] hs(2) obtain st where
    st: "torch_stack hs = Inr st" "shape st = [?L, B, ?N * ?U]"
    by auto
  from rl v1 pr v2 st sh show ?thesis
    by (simp add: Decoder_forward_def)
qed

lemma decoder_body_ok:
  assumes "well_shaped_decoder m h0 B" and "usable_teacher_signals m labels bs"
      and "t < nat (horizon (decoder_model m))"
      and "shape (decoder_hidden_state st) = shape h0"
      and "\<forall>v\<in>set (outputs st). shape v = s"
      and "s = [B, nat (num_nodes (decoder_model m)) * nat (output_dim (decoder_model m))]"
  shows "\<exists>st'. decoder_body m u labels bs t st = Inr st' \<and>
           shape (decoder_hidden_state st') = shape h0 \<and>
           (\<forall>v\<in>set (outputs st'). shape v = s)"
proof -
  from Decoder_forward_ok [OF assms(1,4), of "decoder_input st"] assms(6) obtain out h' where
    f: "Decoder_forward (decoder_model m) (decoder_input st)
          (Some (decoder_hidden_state st)) = Inr (out, h')" and
    o: "shape out = s" and h: "shape h' = shape h0"
    by auto
  show ?thesis
  proof (cases "training m \<and> use_curriculum_learning m")
    case False
    with f o h assms(5) show ?thesis
      by (auto simp: decoder_body_def Let_def)
  next
    case True
    with assms(2) obtain th lab n rest where
      th: "compute_sampling_threshold m bs = Inr th" and
      l: "labels = Some lab" "shape lab = n # rest" "nat (horizon (decoder_model m)) \<le> n"
      by (auto simp: usable_teacher_signals_def)
    from l(3) assms(3) have "t < n" by simp
    from index0_shape [OF l(2) this] obtain lt where lt: "index0 lab t = Inr lt" by blast
    from True f o h assms(5) l(1) th lt show ?thesis
      by (auto simp: decoder_body_def Let_def getitem_def)
  qed
qed

lemma decoder_loop_ok:
  assumes "well_shaped_decoder m h0 B" and "usable_teacher_signals m labels bs"
      and "\<forall>t\<in>set ts. t < nat (horizon (decoder_model m))"
      and "shape (decoder_hidden_state st) = shape h0"
      and "\<forall>v\<in>set (outputs st). shape v = s"
      and "s = [B, nat (num_nodes (decoder_model m)) * nat (output_dim (decoder_model m))]"
  shows "\<exists>st'. decoder_loop m u labels bs ts st = Inr st' \<and>
           (\<forall>v\<in>set (outputs st'). shape v = s)"
  using assms(3,4,5)
proof (induction ts arbitrary: st)
  case Nil
  then show ?case by simp
next
  case (Cons t ts)
  from Cons.prems(1) have t: "t < nat (horizon (decoder_model m))" by simp
  from decoder_body_ok [OF assms(1,2) t Cons.prems(2,3) assms(6)] obtain st1 where
    b: "decoder_body m u labels bs t st = Inr st1" and
    i: "shape (decoder_hidden_state st1) = shape h0" "\<forall>v\<in>set (outputs st1). shape v = s"
    by blast
  from Cons.prems(1) have "\<forall>t\<in>set ts. t < nat (horizon (decoder_model m))" by simp
  from Cons.IH [OF this i] b show ?case by simp
qed

lemma decoder_returns:
  assumes "well_shaped_decoder m h B" and "usable_teacher_signals m labels bs"
  shows "\<exists>res. decoder m u (Some h) labels bs = Inr res \<and>
           shape res = [nat (horizon (decoder_model m)), B,
                        nat (num_nodes (decoder_model m)) * nat (output_dim (decoder_model m))]"
proof -
  let ?dec = "decoder_model m"
  let ?s = "[B, nat (num_nodes ?dec) * nat (output_dim ?dec)]"
  from assms(1) have
    hz: "1 \<le> horizon ?dec" and pos: "0 < num_nodes ?dec" "0 < output_dim ?dec" and
    nn: "num_nodes m = num_nodes ?dec" and
    sh: "shape h = [length (dec_dcgru_layers ?dec), B, nat (num_nodes ?dec) * nat (rnn_units ?dec)]"
    by (simp_all add: well_shaped_decoder_def Let_def)
  from pos have "0 \<le> num_nodes ?dec * output_dim ?dec" by simp
  with sh nn obtain st0 where
    s0: "decoder_start m (Some h) = Inr st0" and
    h0: "decoder_hidden_state st0 = h" and o0: "outputs st0 = []"
    by (simp add: decoder_start_def tensor_size_def torch_zeros_def)
  from decoder_loop_ok [OF assms, of "[0..<nat (horizon ?dec)]" st0 ?s u] h0 o0 obtain stn where
    l: "decoder_loop m u labels bs [0..<nat (horizon ?dec)] st0 = Inr stn" and
    os: "\<forall>v\<in>set (outputs stn). shape v = ?s"
    by auto
  from decoder_loop_outputs [OF l] o0 have len: "length (outputs stn) = nat (horizon ?dec)"
    by simp
  with hz have "outputs stn \<noteq> []" by auto
  from torch_stack_ok [OF this os] len obtain res where
    "torch_stack (outputs stn) = Inr res" "shape res = nat (horizon ?dec) # ?s"
    by auto
  with s0 l show ?thesis
    by (simp add: decoder_def)
qed

text \<open>
  Claim C3. \<^verbatim>\<open>DCRNN.encoder\<close> is the iteration of the Encoder over the first \<open>seq_len\<close>
  time steps of the input in order, keeping the last hidden state only, and it returns
  only when the input has these steps. The sequence \<^verbatim>\<open>DCRNN.decoder\<close> returns has
  length \<open>horizon\<close>, and on a well-shaped decoder with usable teacher signals the
  decoder does return, a tensor of shape \<open>(horizon, batch, num_nodes * output_dim)\<close>.
\<close>

theorem encoder_and_decoder_step_counts:
  "(\<forall>xs. length xs = nat (seq_len (encoder_model m)) \<and>
         (\<forall>t<nat (seq_len (encoder_model m)). index0 inputs t = Inr (xs ! t)) \<longrightarrow>
         encoder m inputs = encoder_steps (encoder_model m) xs None) \<and>
   (\<forall>r. encoder m inputs = Inr r \<longrightarrow>
        (\<exists>xs. length xs = nat (seq_len (encoder_model m)) \<and>
              (\<forall>t<nat (seq_len (encoder_model m)). index0 inputs t = Inr (xs ! t)))) \<and>
   (\<forall>res. decoder m u h labels bs = Inr res \<longrightarrow>
        tensor_size res 0 = Inr (nat (horizon (decoder_model m))) \<and>
        int (length (shape res)) \<ge> 1 \<and>
        int (hd (shape res)) = horizon (decoder_model m)) \<and>
   (\<forall>hid B. well_shaped_decoder m hid B \<and> usable_teacher_signals m labels bs \<longrightarrow>
        (\<exists>res. decoder m u (Some hid) labels bs = Inr res \<and>
               shape res = [nat (horizon (decoder_model m)), B,
                            nat (num_nodes (decoder_model m)) *
                            nat (output_dim (decoder_model m))]))"
proof (intro conjI allI impI)
  fix hid B
  assume "well_shaped_decoder m hid B \<and> usable_teacher_signals m labels bs"
  then show "\<exists>res. decoder m u (Some hid) labels bs = Inr res \<and>
               shape res = [nat (horizon (decoder_model m)), B,
                            nat (num_nodes (decoder_model m)) *
                            nat (output_dim (decoder_model m))]"
    using decoder_returns [of m hid B labels bs u] by blast
next
  fix xs
  assume "length xs = nat (seq_len (encoder_model m)) \<and>
          (\<forall>t<nat (seq_len (encoder_model m)). index0 inputs t = Inr (xs ! t))"
  then show "encoder m inputs = encoder_steps (encoder_model m) xs None"
    unfolding encoder_def by (intro encoder_loop_steps) auto
next
  fix r
  assume "encoder m inputs = Inr r"
  from encoder_loop_reads [OF this [unfolded encoder_def]]
  show "\<exists>xs. length xs = nat (seq_len (encoder_model m)) \<and>
             (\<forall>t<nat (seq_len (encoder_model m)). index0 inputs t = Inr (xs ! t))"
    by auto
next
  fix res
  assume d: "decoder m u h labels bs = Inr res"
  then obtain st0 stn where
    s: "decoder_start m h = Inr st0" and
    l: "decoder_loop m u labels bs [0..<nat (horizon (decoder_model m))] st0 = Inr stn" and
    r: "torch_stack (outputs stn) = Inr res"
    by (auto simp: decoder_def split: sum.splits)
  from decoder_loop_outputs [OF l] decoder_start_outputs [OF s]
  have len: "length (outputs stn) = nat (horizon (decoder_model m))" by simp
  from torch_stack_shape [OF r] len
  have sh: "shape res = nat (horizon (decoder_model m)) # shape (hd (outputs stn))"
    and ne: "nat (horizon (decoder_model m)) \<noteq> 0"
    by auto
  from sh show "tensor_size res 0 = Inr (nat (horizon (decoder_model m)))"
    by (simp add: tensor_size_def)
  from sh show "int (length (shape res)) \<ge> 1" by simp
  from sh ne show "int (hd (shape res)) = horizon (decoder_model m)" by simp
qed

theorem encoder_and_decoder_step_counts_witness:
  "encoder example_model example_inputs =
     encoder_steps (encoder_model example_model)
       [\<lparr>dtype = Float32, shape = [1, 1], elems = [1]\<rparr>,
        \<lparr>dtype = Float32, shape = [1, 1], elems = [2]\<rparr>] None \<and>
   encoder example_model example_inputs = Inr (Some example_hidden) \<and>
   decoder example_model (\<lambda>_. 0) (Some example_hidden) None None =
     Inr \<lparr>dtype = Float32, shape = [2, 1, 1], elems = [12, 38]\<rparr> \<and>
   tensor_size \<lparr>dtype = Float32, shape = [2, 1, 1], elems = [12, 38]\<rparr> 0 =
     Inr (nat (horizon (decoder_model example_model))) \<and>
   horizon (decoder_model example_model) = 2 \<and> seq_len (encoder_model example_model) = 2 \<and>
   well_shaped_decoder example_teacher example_hidden 1 \<and>
   usable_teacher_signals example_teacher (Some example_labels) (Some 0) \<and>
   (\<exists>res. decoder example_teacher (\<lambda>_. 1 / 2) (Some example_hidden) (Some example_labels)
            (Some 0) = Inr res \<and>
          shape res = [2, 1, 1])"
proof -
  let ?xs = "[\<lparr>dtype = Float32, shape = [1, 1], elems = [1]\<rparr>,
              \<lparr>dtype = Float32, shape = [1, 1], elems = [2::real]\<rparr>]"
  have n: "nat (seq_len (encoder_model example_model)) = 2"
    by (simp add: example_model_def example_encoder_def)
  have r: "\<forall>t<nat (seq_len (encoder_model example_model)). index0 example_inputs t = Inr (?xs ! t)"
    unfolding n by (simp add: index0_def example_inputs_def less_Suc_eq numeral_2_eq_2)
  have e: "encoder example_model example_inputs = Inr (Some example_hidden)"
    by (simp add: run_defs example_defs example_hidden_def)
  have d: "decoder example_model (\<lambda>_. 0) (Some example_hidden) None None =
             Inr \<lparr>dtype = Float32, shape = [2, 1, 1], elems = [12, 38]\<rparr>"
    by (simp add: run_defs example_defs example_hidden_def)
  have hz: "horizon (decoder_model example_model) = 2" "seq_len (encoder_model example_model) = 2"
    by (simp_all add: example_model_def example_decoder_def example_encoder_def)
  have w: "well_shaped_decoder example_teacher example_hidden 1"
    by (simp add: well_shaped_decoder_def example_teacher_def example_defs example_hidden_def)
  have t: "usable_teacher_signals example_teacher (Some example_labels) (Some 0)"
    using example_threshold
    by (simp add: usable_teacher_signals_def example_teacher_def example_defs)
  note inst = encoder_and_decoder_step_counts [of example_model example_inputs "\<lambda>_. 0"
      "Some example_hidden" None None]
  from inst have "length ?xs = nat (seq_len (encoder_model example_model)) \<and>
      (\<forall>t<nat (seq_len (encoder_model example_model)). index0 example_inputs t = Inr (?xs ! t)) \<longrightarrow>
      encoder example_model example_inputs = encoder_steps (encoder_model example_model) ?xs None"
    by blast
  with n r have a: "encoder example_model example_inputs =
      encoder_steps (encoder_model example_model) ?xs None"
    by simp
  from inst d have b: "tensor_size \<lparr>dtype = Float32, shape = [2, 1, 1], elems = [12, 38]\<rparr> 0 =
      Inr (nat (horizon (decoder_model example_model)))"
    by blast
  from encoder_and_decoder_step_counts [of example_teacher example_inputs "\<lambda>_. 1 / 2"
      "Some example_hidden" "Some example_labels" "Some 0"] w t
  have "\<exists>res. decoder example_teacher (\<lambda>_. 1 / 2) (Some example_hidden) (Some example_labels)
            (Some 0) = Inr res \<and>
          shape res = [nat (horizon (decoder_model example_teacher)), 1,
                       nat (num_nodes (decoder_model example_teacher)) *
                       nat (output_dim (decoder_model example_teacher))]"
    by blast
  then have c: "\<exists>res. decoder example_teacher (\<lambda>_. 1 / 2) (Some example_hidden)
            (Some example_labels) (Some 0) = Inr res \<and> shape res = [2, 1, 1]"
    by (simp add: example_teacher_def example_model_def example_decoder_def)
  from a b c e d hz w t show ?thesis by simp
qed

subsection \<open>The masked loss\<close>

lemma masked_sum_filter:
  "sum_list (map (\<lambda>(t, p). if t \<noteq> 0 then \<bar>t - p\<bar> else (0::real)) ps) =
   sum_list (map (\<lambda>(t, p). \<bar>t - p\<bar>) (filter (\<lambda>(t, p). t \<noteq> 0) ps))"
  by (induction ps) auto

lemma unmasked_count_length:
  "unmasked_count true pred = length (unmasked_abs_errors true pred)"
  by (simp add: unmasked_count_def unmasked_abs_errors_def)

lemma masked_mae_loss_mean:
  "masked_mae_loss true pred =
     (if unmasked_abs_errors true pred = [] then 0
      else mean_list (unmasked_abs_errors true pred))"
  using masked_sum_filter [of "zip true pred"]
  by (simp add: masked_mae_loss_def unmasked_count_length mean_list_def
        masked_abs_errors_def unmasked_abs_errors_def)

lemma unmasked_count_true:
  assumes "length pred = length true"
  shows "unmasked_count true pred = length (filter (\<lambda>t. t \<noteq> 0) true)"
proof -
  have "length (filter (\<lambda>(t, p). t \<noteq> 0) (zip true pred)) =
        length (map fst (filter ((\<lambda>t. t \<noteq> 0) \<circ> fst) (zip true pred)))"
    by (simp add: comp_def case_prod_unfold)
  also have "\<dots> = length (filter (\<lambda>t. t \<noteq> 0) (map fst (zip true pred)))"
    by (simp only: filter_map)
  also have "map fst (zip true pred) = true"
    using assms by simp
  finally show ?thesis
    by (simp add: unmasked_count_def)
qed

lemma masked_abs_errors_cong:
  assumes "length pred = length true" and "length pred' = length true"
      and "\<forall>i<length true. true ! i \<noteq> 0 \<longrightarrow> pred ! i = pred' ! i"
  shows "masked_abs_errors true pred = masked_abs_errors true pred'"
  using assms by (intro nth_equalityI) (auto simp: masked_abs_errors_def)

lemma masked_mae_loss_masked_positions:
  assumes "length pred = length true" and "length pred' = length true"
      and "\<forall>i<length true. true ! i \<noteq> 0 \<longrightarrow> pred ! i = pred' ! i"
  shows "masked_mae_loss true pred = masked_mae_loss true pred'"
  using masked_abs_errors_cong [OF assms] unmasked_count_true [OF assms(1)]
    unmasked_count_true [OF assms(2)]
  by (simp add: masked_mae_loss_def)

lemma masked_abs_errors_same: "sum_list (masked_abs_errors y y) = 0"
  by (induction y) (auto simp: masked_abs_errors_def)

lemma masked_mae_loss_same: "masked_mae_loss y y = 0"
  by (simp add: masked_mae_loss_def masked_abs_errors_same)

lemma masked_mae_loss_all_masked:
  assumes "\<forall>t\<in>set true. t = 0"
  shows "masked_mae_loss true pred = 0"
proof -
  have "filter (\<lambda>(t, p). t \<noteq> 0) (zip true pred) = []"
    using assms by (auto simp: filter_empty_conv dest: set_zip_leftD)
  then show ?thesis
    by (simp add: masked_mae_loss_def unmasked_count_def)
qed

lemma masked_mae_loss_example: "masked_mae_loss [0, 2, 4] [100, 2, 5] = 1 / 2"
  by (simp add: masked_mae_loss_def unmasked_count_def masked_abs_errors_def)

text \<open>
  Claim C6. The masked loss of the spec is the mean absolute error over the positions
  where the true value is not zero. What the prediction holds at a masked position does
  not reach the loss, so the loss is constant in these entries. The loss of a tensor
  against itself is zero, the loss is zero when every true value is zero, and the
  example of the spec gives one half.
\<close>

theorem masked_mae_loss_ignores_masked_positions:
  "masked_mae_loss true pred =
     (if unmasked_abs_errors true pred = [] then 0
      else mean_list (unmasked_abs_errors true pred)) \<and>
   (length pred = length true \<and> length pred' = length true \<and>
    (\<forall>i<length true. true ! i \<noteq> 0 \<longrightarrow> pred ! i = pred' ! i) \<longrightarrow>
    masked_mae_loss true pred = masked_mae_loss true pred') \<and>
   masked_mae_loss y y = 0 \<and>
   ((\<forall>t\<in>set true. t = 0) \<longrightarrow> masked_mae_loss true pred = 0) \<and>
   masked_mae_loss [0, 2, 4] [100, 2, 5] = 1 / 2"
  using masked_mae_loss_mean [of true pred] masked_mae_loss_masked_positions [of pred true pred']
    masked_mae_loss_same [of y] masked_mae_loss_all_masked [of true pred]
    masked_mae_loss_example
  by blast

theorem masked_mae_loss_ignores_masked_positions_witness:
  "masked_mae_loss [0, 2, 4] [100, 2, 5] = mean_list [0, 1] \<and>
   unmasked_abs_errors [0, 2, 4] [100, 2, 5] = [0, 1] \<and>
   masked_mae_loss [0, 2, 4] [100, 2, 5] = masked_mae_loss [0, 2, 4] [- 7, 2, 5] \<and>
   masked_mae_loss [0, 2, 4] [0, 2, 4] = 0 \<and>
   masked_mae_loss [0, 0] [3, 4] = 0"
proof -
  have u: "unmasked_abs_errors [0, 2, 4] [100, 2, 5] = [0, 1]"
    by (simp add: unmasked_abs_errors_def)
  have h: "length [100, 2, 5::real] = length [0, 2, 4::real] \<and>
           length [- 7, 2, 5::real] = length [0, 2, 4::real] \<and>
           (\<forall>i<length [0, 2, 4::real]. [0, 2, 4::real] ! i \<noteq> 0 \<longrightarrow>
              [100, 2, 5::real] ! i = [- 7, 2, 5] ! i)"
    by (simp add: nth_Cons split: nat.splits)
  have z: "\<forall>t\<in>set [0, 0::real]. t = 0" by simp
  from masked_mae_loss_ignores_masked_positions [of "[0, 2, 4]" "[100, 2, 5]" "[- 7, 2, 5]"
      "[0, 2, 4]"] u h
  have a: "masked_mae_loss [0, 2, 4] [100, 2, 5] = mean_list [0, 1]"
    and b: "masked_mae_loss [0, 2, 4] [100, 2, 5] = masked_mae_loss [0, 2, 4] [- 7, 2, 5]"
    and c: "masked_mae_loss [0, 2, 4] [0, 2, 4] = 0"
    by simp_all
  from masked_mae_loss_ignores_masked_positions [of "[0, 0]" "[3, 4]" "[3, 4]" "[]"] z
  have d: "masked_mae_loss [0, 0] [3, 4] = 0"
    by blast
  from a b c d u show ?thesis by simp
qed

subsection \<open>Gradient clipping\<close>

lemma l2_norm_nonneg: "0 \<le> l2_norm v"
  unfolding l2_norm_def by (rule real_sqrt_ge_zero, rule sum_list_nonneg) auto

lemma l2_norm_scale: "l2_norm (map (\<lambda>x. x * k) v) = \<bar>k\<bar> * l2_norm v"
proof -
  have "sum_list (map (\<lambda>x. (x * k)\<^sup>2) v) = k\<^sup>2 * sum_list (map (\<lambda>x. x\<^sup>2) v)"
    by (induction v) (simp_all add: algebra_simps)
  then show ?thesis
    by (simp add: l2_norm_def comp_def real_sqrt_mult)
qed

lemma existing_grads_scale:
  "existing_grads (map (map_option (map f)) gs) = map (map f) (existing_grads gs)"
  by (induction gs) (auto simp: existing_grads_def split: option.splits)

lemma total_norm_nonneg: "0 \<le> total_norm gs"
  by (simp add: total_norm_def l2_norm_nonneg)

lemma total_norm_scale:
  "total_norm (map (map_option (map (\<lambda>x. x * k))) gs) = \<bar>k\<bar> * total_norm gs"
proof -
  have "map l2_norm (map (map (\<lambda>x. x * k)) vs) = map (\<lambda>x. x * \<bar>k\<bar>) (map l2_norm vs)" for vs
    by (simp add: l2_norm_scale mult.commute)
  then show ?thesis
    by (simp only: total_norm_def existing_grads_scale l2_norm_scale)
qed

lemma clip_grad_norm_bound:
  assumes "0 \<le> max_norm"
  shows "total_norm (clip_grad_norm gs max_norm) \<le> max_norm"
proof -
  let ?T = "total_norm gs"
  let ?k = "min (max_norm / (?T + 1 / 1000000)) 1"
  have T: "0 \<le> ?T" by (rule total_norm_nonneg)
  then have d: "0 < ?T + 1 / 1000000" by simp
  with assms have k0: "0 \<le> ?k" by simp
  have "?k * ?T \<le> (max_norm / (?T + 1 / 1000000)) * ?T"
    using T by (intro mult_right_mono) simp_all
  also have "\<dots> = max_norm * (?T / (?T + 1 / 1000000))"
    by simp
  also have "\<dots> \<le> max_norm * 1"
    using assms d T by (intro mult_left_mono) (simp_all add: divide_le_eq)
  finally have "?k * ?T \<le> max_norm" by simp
  moreover have "total_norm (clip_grad_norm gs max_norm) = \<bar>?k\<bar> * ?T"
    by (simp add: clip_grad_norm_def Let_def total_norm_scale)
  ultimately show ?thesis using k0 by simp
qed

lemma clip_grad_norm_small:
  assumes "total_norm gs + 1 / 1000000 \<le> max_norm"
  shows "clip_grad_norm gs max_norm = gs"
proof -
  have "0 < total_norm gs + 1 / 1000000"
    using total_norm_nonneg [of gs] by simp
  with assms have "1 \<le> max_norm / (total_norm gs + 1 / 1000000)"
    by (simp add: le_divide_eq)
  then have "min (max_norm / (total_norm gs + 1 / 1000000)) 1 = 1"
    by simp
  then show ?thesis
    by (simp add: clip_grad_norm_def Let_def option.map_ident map_idI)
qed


lemma training_step_gradients_ignore_batch:
  assumes "training_step m u batch batch_idx = Inr (loss, m')"
      and "training_step m u' batch' batch_idx' = Inr (loss', m'')"
  shows "m' = m''"
  using training_step_frame [OF assms(1)] training_step_frame [OF assms(2)] by simp


end
